theory Spec2Isabelle
  imports Main "HOL-Library.Sublist" "HOL-Library.AList"
begin

section \<open>Nexus Dashboard pre-upgrade validation worker: a shallow embedding\<close>

text \<open>
  The definitions below follow \<^verbatim>\<open>worker_functions.py\<close>. Python strings are
  \<^typ>\<open>string\<close>, Python's unbounded integers are \<^typ>\<open>int\<close>, lists are lists and
  dictionaries are association lists in insertion order. Everything the script asks
  of the operating system (the file system, external commands, the clock) is a
  parameter of the function that asks. Where the script branches on
  \<^verbatim>\<open>sys.version_info\<close>, the branch for Python 3 is followed.
\<close>

subsection \<open>String helpers\<close>

text \<open>
  Strings are sequences of characters with code points below 256. Python 3 treats as
  whitespace, in \<^verbatim>\<open>str.strip()\<close> and \<^verbatim>\<open>str.split()\<close>, the characters for
  which \<^verbatim>\<open>str.isspace\<close> holds: below 256 these are U+0009 to U+000D, U+001C to
  U+001F, U+0020, U+0085 and U+00A0.
\<close>

definition is_space :: "char \<Rightarrow> bool" where
  "is_space c = (of_char c \<in> {9, 10, 11, 12, 13, 28, 29, 30, 31, 32, 133, 160 :: nat})"

text \<open>\<^verbatim>\<open>s.strip()\<close>: whitespace is removed at both ends.\<close>

definition strip :: "string \<Rightarrow> string" where
  "strip s = rev (dropWhile is_space (rev (dropWhile is_space s)))"

text \<open>\<^verbatim>\<open>pat in s\<close> on strings: \<open>pat\<close> occurs in \<open>s\<close> as a contiguous substring.\<close>

fun str_contains :: "string \<Rightarrow> string \<Rightarrow> bool" where
  "str_contains pat [] = (pat = [])"
| "str_contains pat (c # cs) = (prefix pat (c # cs) \<or> str_contains pat cs)"

subsection \<open>\<^verbatim>\<open>process_large_file_streaming\<close>\<close>

text \<open>
  One match record, the dictionary with the keys \<^verbatim>\<open>line_number\<close>,
  \<^verbatim>\<open>content\<close> and \<^verbatim>\<open>pattern\<close>.
\<close>

record match_rec =
  line_number :: nat
  content :: string
  pattern :: string

text \<open>
  What the function sees of the file: \<open>Missing\<close> when \<^verbatim>\<open>os.path.exists\<close> is false,
  \<open>Unreadable e\<close> when \<^verbatim>\<open>open\<close> raises \<open>e\<close>, and \<open>Readable ls err\<close> when the
  iteration over the file yields the lines \<open>ls\<close> and then either ends (\<open>None\<close>) or
  raises (\<open>Some e\<close>, a decoding or an I/O error in the middle of the file).
\<close>

datatype file_view = Missing | Unreadable string | Readable "string list" "string option"

text \<open>
  The inner loop over the patterns for one (stripped) line. The flag is \<open>True\<close> when
  the early \<^verbatim>\<open>return matches\<close> was taken.
\<close>

fun scan_patterns ::
  "nat \<Rightarrow> string \<Rightarrow> string list \<Rightarrow> int \<Rightarrow> match_rec list \<Rightarrow> match_rec list \<times> bool" where
  "scan_patterns line_num line [] max_matches matches = (matches, False)"
| "scan_patterns line_num line (p # ps) max_matches matches =
     (if str_contains p line
      then (let matches' = matches @ [\<lparr>line_number = line_num + 1, content = line, pattern = p\<rparr>]
            in if int (length matches') \<ge> max_matches then (matches', True)
               else scan_patterns line_num line ps max_matches matches')
      else scan_patterns line_num line ps max_matches matches)"

text \<open>The outer loop, \<^verbatim>\<open>for line_num, line in enumerate(f)\<close>.\<close>

fun scan_lines ::
  "nat \<Rightarrow> string list \<Rightarrow> string list \<Rightarrow> int \<Rightarrow> match_rec list \<Rightarrow> match_rec list \<times> bool" where
  "scan_lines line_num [] pats max_matches matches = (matches, False)"
| "scan_lines line_num (l # ls) pats max_matches matches =
     (case scan_patterns line_num (strip l) pats max_matches matches of
        (matches', True) \<Rightarrow> (matches', True)
      | (matches', False) \<Rightarrow> scan_lines (line_num + 1) ls pats max_matches matches')"

text \<open>
  The \<^verbatim>\<open>except Exception\<close> clause prints a warning and falls through to the final
  \<^verbatim>\<open>return matches\<close>: an error raised by \<^verbatim>\<open>open\<close> leaves \<open>matches\<close> empty, an
  error raised after some lines leaves the matches of those lines.
\<close>

definition process_large_file_streaming ::
  "(string \<Rightarrow> file_view) \<Rightarrow> string \<Rightarrow> string list \<Rightarrow> int \<Rightarrow> match_rec list" where
  "process_large_file_streaming fs filepath search_patterns max_matches =
     (case fs filepath of
        Missing \<Rightarrow> []
      | Unreadable e \<Rightarrow> []
      | Readable ls err \<Rightarrow> fst (scan_lines 0 ls search_patterns max_matches []))"

text \<open>
  The matches of a whole file when there is no limit, in the order the loops
  produce them: line by line, and pattern by pattern inside a line.
\<close>

definition line_matches :: "nat \<Rightarrow> string \<Rightarrow> string list \<Rightarrow> match_rec list" where
  "line_matches line_num line pats =
     map (\<lambda>p. \<lparr>line_number = line_num + 1, content = line, pattern = p\<rparr>)
       (filter (\<lambda>p. str_contains p line) pats)"

fun all_matches :: "nat \<Rightarrow> string list \<Rightarrow> string list \<Rightarrow> match_rec list" where
  "all_matches line_num [] pats = []"
| "all_matches line_num (l # ls) pats =
     line_matches line_num (strip l) pats @ all_matches (line_num + 1) ls pats"

subsection \<open>\<^verbatim>\<open>FileCache\<close>\<close>

text \<open>
  \<^verbatim>\<open>os.path.join(a, b)\<close> on POSIX: an absolute \<open>b\<close> replaces \<open>a\<close>, otherwise a
  separator is put between the two unless \<open>a\<close> is empty or already ends with one.
\<close>

definition path_join :: "string \<Rightarrow> string \<Rightarrow> string" where
  "path_join a b =
     (if prefix ''/'' b then b
      else if a = [] \<or> last a = CHR ''/'' then a @ b
      else a @ ''/'' @ b)"

text \<open>
  What \<^verbatim>\<open>_scan_once\<close> asks of the operating system. \<open>walk dir\<close> is \<open>None\<close> when
  \<^verbatim>\<open>os.path.exists(dir)\<close> is false and otherwise the sequence of \<open>(root, files)\<close>
  that \<^verbatim>\<open>os.walk(dir)\<close> yields (its \<open>dirs\<close> component is not used);
  \<open>relpath path start\<close> is \<^verbatim>\<open>os.path.relpath(path, start)\<close>.
\<close>

record os_view =
  walk :: "string \<Rightarrow> (string \<times> string list) list option"
  relpath :: "string \<Rightarrow> string \<Rightarrow> string"

text \<open>
  The object: \<^verbatim>\<open>file_cache\<close> maps a file name to the list of full paths with that
  name, \<^verbatim>\<open>path_cache\<close> maps a relative path to its full path. Both are
  dictionaries, kept here as association lists in insertion order; assigning to a key
  that is present replaces its value in place (\<^const>\<open>AList.update\<close>).
\<close>

record FileCache =
  base_dir :: string
  file_cache :: "(string \<times> string list) list"
  path_cache :: "(string \<times> string) list"

text \<open>The body of the inner loop, once \<open>full_path\<close> and \<open>rel_path\<close> are known.\<close>

definition cache_file :: "string \<Rightarrow> string \<Rightarrow> string \<Rightarrow> FileCache \<Rightarrow> FileCache" where
  "cache_file file full_path rel_path c =
     c\<lparr>file_cache :=
          AList.update file
            ((case map_of (file_cache c) file of None \<Rightarrow> [] | Some ps \<Rightarrow> ps) @ [full_path])
            (file_cache c),
        path_cache := AList.update rel_path full_path (path_cache c)\<rparr>"

definition scan_file :: "os_view \<Rightarrow> string \<Rightarrow> string \<Rightarrow> FileCache \<Rightarrow> FileCache" where
  "scan_file os root file c =
     (let full_path = path_join root file;
          rel_path = relpath os full_path (base_dir c)
      in cache_file file full_path rel_path c)"

text \<open>\<^verbatim>\<open>_scan_once\<close>: nothing happens when the base directory does not exist.\<close>

definition scan_once :: "os_view \<Rightarrow> FileCache \<Rightarrow> FileCache" where
  "scan_once os c =
     (case walk os (base_dir c) of
        None \<Rightarrow> c
      | Some w \<Rightarrow> fold (\<lambda>(root, files) c. fold (scan_file os root) files c) w c)"

text \<open>\<^verbatim>\<open>FileCache(base_dir)\<close>, the constructor.\<close>

definition FileCache_init :: "os_view \<Rightarrow> string \<Rightarrow> FileCache" where
  "FileCache_init os dir = scan_once os \<lparr>base_dir = dir, file_cache = [], path_cache = []\<rparr>"

definition refresh :: "os_view \<Rightarrow> FileCache \<Rightarrow> FileCache" where
  "refresh os c = scan_once os (c\<lparr>file_cache := [], path_cache := []\<rparr>)"

text \<open>
  \<^verbatim>\<open>find_files\<close>. The matcher \<^verbatim>\<open>fnmatch.fnmatch(name, pattern)\<close> is a parameter.
  The method assigns to no attribute of the object, so the cache is an argument only.
  On an exact hit it returns the cached list itself.
\<close>

definition find_files :: "(string \<Rightarrow> string \<Rightarrow> bool) \<Rightarrow> FileCache \<Rightarrow> string \<Rightarrow> string list" where
  "find_files fnmatch c pat =
     (case map_of (file_cache c) pat of
        Some paths \<Rightarrow> paths
      | None \<Rightarrow>
          (let matches = fold (\<lambda>(filename, paths) matches.
                                 if fnmatch filename pat then matches @ paths else matches)
                           (file_cache c) []
           in fold (\<lambda>(rel_path, full_path) matches.
                      if fnmatch rel_path pat \<or> str_contains pat rel_path
                      then (if full_path \<notin> set matches then matches @ [full_path] else matches)
                      else matches)
                (path_cache c) matches))"

text \<open>
  A matcher to run examples with: \<^verbatim>\<open>fnmatch.fnmatch\<close> on POSIX for patterns
  without bracket expressions, where \<open>*\<close> matches any string (also across \<open>/\<close>) and
  \<open>?\<close> any one character. The theorems about \<^const>\<open>find_files\<close> hold for every
  matcher.
\<close>

fun glob_match :: "string \<Rightarrow> string \<Rightarrow> bool" where
  "glob_match [] s = (s = [])"
| "glob_match (p # ps) s =
     (if p = CHR ''*''
      then (glob_match ps s \<or> (case s of [] \<Rightarrow> False | c # cs \<Rightarrow> glob_match (p # ps) cs))
      else (case s of [] \<Rightarrow> False | c # cs \<Rightarrow> (p = CHR ''?'' \<or> p = c) \<and> glob_match ps cs))"

definition fnmatch_glob :: "string \<Rightarrow> string \<Rightarrow> bool" where
  "fnmatch_glob name pat = glob_match pat name"

text \<open>\<^verbatim>\<open>os.path.relpath\<close> for a path below a normalised \<open>start\<close>.\<close>

definition relpath_below :: "string \<Rightarrow> string \<Rightarrow> string" where
  "relpath_below path start = drop (length start + 1) path"

text \<open>
  The entries a scan visits, in order, as \<open>(file, full_path, rel_path)\<close>, and the full
  paths recorded under one name.
\<close>

definition walk_entries ::
  "os_view \<Rightarrow> string \<Rightarrow> (string \<times> string list) list \<Rightarrow> (string \<times> string \<times> string) list" where
  "walk_entries os dir w =
     concat (map (\<lambda>(root, files).
        map (\<lambda>file. (file, path_join root file, relpath os (path_join root file) dir)) files) w)"

definition scanned_entries :: "os_view \<Rightarrow> string \<Rightarrow> (string \<times> string \<times> string) list" where
  "scanned_entries os dir = (case walk os dir of None \<Rightarrow> [] | Some w \<Rightarrow> walk_entries os dir w)"

definition recorded :: "(string \<times> string \<times> string) list \<Rightarrow> string \<Rightarrow> string list" where
  "recorded es n = map (\<lambda>(f, p, r). p) (filter (\<lambda>(f, p, r). f = n) es)"

definition cache_entries :: "(string \<times> string \<times> string) list \<Rightarrow> FileCache \<Rightarrow> FileCache" where
  "cache_entries es c =
     fold (\<lambda>(file, full_path, rel_path) c. cache_file file full_path rel_path c) es c"

definition cached_paths :: "FileCache \<Rightarrow> string list" where
  "cached_paths c = concat (map snd (file_cache c))"

text \<open>
  The two collections \<^const>\<open>find_files\<close> draws from when the pattern is not a known
  name, and the order-preserving way it adds the second to the first.
\<close>

definition name_matches :: "(string \<Rightarrow> string \<Rightarrow> bool) \<Rightarrow> FileCache \<Rightarrow> string \<Rightarrow> string list" where
  "name_matches fnmatch c pat =
     concat (map snd (filter (\<lambda>(filename, paths). fnmatch filename pat) (file_cache c)))"

definition path_matches :: "(string \<Rightarrow> string \<Rightarrow> bool) \<Rightarrow> FileCache \<Rightarrow> string \<Rightarrow> string list" where
  "path_matches fnmatch c pat =
     map snd (filter (\<lambda>(rel_path, full_path).
                        fnmatch rel_path pat \<or> str_contains pat rel_path)
                (path_cache c))"

definition add_new :: "'a list \<Rightarrow> 'a list \<Rightarrow> 'a list" where
  "add_new matches xs = fold (\<lambda>x m. if x \<in> set m then m else m @ [x]) xs matches"

text \<open>
  The lookup as the specification words it, read as a chain of fallbacks: the exact
  name; else the wildcard matches among the names; else (only when there are none) the
  wildcard or substring matches among the relative paths; duplicates dropped, first
  occurrence kept.
\<close>

definition find_files_spec :: "(string \<Rightarrow> string \<Rightarrow> bool) \<Rightarrow> FileCache \<Rightarrow> string \<Rightarrow> string list" where
  "find_files_spec fnmatch c pat =
     (case map_of (file_cache c) pat of
        Some paths \<Rightarrow> paths
      | None \<Rightarrow>
          (let by_name = add_new [] (name_matches fnmatch c pat)
           in if by_name \<noteq> [] then by_name
              else add_new [] (path_matches fnmatch c pat)))"

text \<open>
  A caller of one cache object over an unchanging directory tree. On an exact hit
  \<^verbatim>\<open>find_files\<close> returns the list object that \<^verbatim>\<open>file_cache\<close> holds for the name,
  not a copy, so the caller and the cache share it; otherwise it returns a new list.
  A caller's variable is therefore either the list shared with the cache under a
  name, or a list of the caller's own.
\<close>

datatype found = Shared string | Own "string list"

definition value_of :: "FileCache \<Rightarrow> found \<Rightarrow> string list" where
  "value_of c v =
     (case v of
        Own xs \<Rightarrow> xs
      | Shared n \<Rightarrow> (case map_of (file_cache c) n of Some ps \<Rightarrow> ps | None \<Rightarrow> []))"

definition find_files_object :: "(string \<Rightarrow> string \<Rightarrow> bool) \<Rightarrow> FileCache \<Rightarrow> string \<Rightarrow> found" where
  "find_files_object fnmatch c pat =
     (case map_of (file_cache c) pat of
        Some paths \<Rightarrow> Shared pat
      | None \<Rightarrow> Own (find_files fnmatch c pat))"

text \<open>
  What a caller does with the cache: \<open>Find pat\<close> binds the result of
  \<^verbatim>\<open>cache.find_files(pat)\<close> to a new variable; \<open>Extend i xs\<close> calls
  \<^verbatim>\<open>extend(xs)\<close> on the list bound by the \<open>i\<close>-th call, as
  \<^verbatim>\<open>check_CA_CSCwm35992\<close> does with the result for \<^verbatim>\<open>sm.log*\<close>; \<open>Refresh\<close> calls
  \<^verbatim>\<open>cache.refresh()\<close>, whose \<^verbatim>\<open>clear()\<close> takes the shared lists out of the cache
  and leaves them to the caller.
\<close>

datatype cache_op = Find string | Extend nat "string list" | Refresh

fun cache_step ::
  "(string \<Rightarrow> string \<Rightarrow> bool) \<Rightarrow> os_view \<Rightarrow> cache_op \<Rightarrow> FileCache \<times> found list
     \<Rightarrow> FileCache \<times> found list" where
  "cache_step fnmatch os (Find pat) (c, vs) = (c, vs @ [find_files_object fnmatch c pat])"
| "cache_step fnmatch os (Extend i xs) (c, vs) =
     (if i < length vs
      then (case vs ! i of
              Own ys \<Rightarrow> (c, vs[i := Own (ys @ xs)])
            | Shared n \<Rightarrow>
                (c\<lparr>file_cache := AList.update n (value_of c (Shared n) @ xs) (file_cache c)\<rparr>, vs))
      else (c, vs))"
| "cache_step fnmatch os Refresh (c, vs) = (refresh os c, map (\<lambda>v. Own (value_of c v)) vs)"




text \<open>
  An extracted tree with two files at the top and two in \<^verbatim>\<open>logs/\<close>; the name
  \<^verbatim>\<open>x\<close> occurs at both depths.
\<close>

definition demo_os :: os_view where
  "demo_os =
     \<lparr>walk = (\<lambda>d. if d = ''/b''
                  then Some [(''/b'', [''log1'', ''x'']), (''/b/logs'', [''foo.txt'', ''x''])]
                  else None),
      relpath = relpath_below\<rparr>"

subsection \<open>The results aggregate and the heartbeat\<close>

text \<open>
  The global \<^verbatim>\<open>results["checks"]\<close> is created with fifteen literal keys. No statement
  of the script adds or removes a key, and every subscript into it is one of these
  literals, so the keys are a datatype and the dictionary a function on it. The status
  strings written anywhere in the script are the four literals below.
\<close>

datatype check_name =
    version_check | subnet_check | node_status | ping_check | disk_space | pod_status
  | system_health | techsupport | certificate_check | iso_check | lvm_pvs_check
  | persistent_ip_check | atom0_nvme_check | atom0_vg_check | nxos_discovery_service

definition registered_checks :: "check_name list" where
  "registered_checks =
     [version_check, subnet_check, node_status, ping_check, disk_space, pod_status,
      system_health, techsupport, certificate_check, iso_check, lvm_pvs_check,
      persistent_ip_check, atom0_nvme_check, atom0_vg_check, nxos_discovery_service]"

datatype status = PASS | WARNING | FAIL | ERROR

text \<open>
  One entry: \<^verbatim>\<open>status\<close>, \<^verbatim>\<open>details\<close>, and the optional keys
  \<^verbatim>\<open>explanation\<close>, \<^verbatim>\<open>recommendation\<close> and \<^verbatim>\<open>reference\<close> as an association
  list.
\<close>

record check_result =
  status :: status
  details :: "string list"
  extras :: "(string \<times> string) list"

type_synonym checks = "check_name \<Rightarrow> check_result"

definition initial_checks :: checks where
  "initial_checks = (\<lambda>n. \<lparr>status = PASS, details = [], extras = []\<rparr>)"

text \<open>
  The global \<^verbatim>\<open>status\<close> dictionary (the heartbeat). Its \<^verbatim>\<open>node_name\<close> never
  changes and \<^verbatim>\<open>last_updated\<close> is the wall clock; neither is kept.
\<close>

record heartbeat =
  hb_status :: string
  current_operation :: string
  progress :: int

text \<open>
  The state of one run: the two globals, every content the status file has had (oldest
  first), the content of the results file, and the shell commands issued so far.
\<close>

record world =
  results :: checks
  hb :: heartbeat
  status_file :: "heartbeat list"
  results_file :: "checks option"
  cmd_log :: "string list"

definition initial_world :: world where
  "initial_world =
     \<lparr>results = initial_checks,
      hb = \<lparr>hb_status = ''starting'', current_operation = ''initialization'', progress = 0\<rparr>,
      status_file = [], results_file = None, cmd_log = []\<rparr>"

text \<open>
  The assignments to the aggregate that occur in the script, and what a check body did
  in one run: the assignments it made, in order, and how it ended. A call either
  returns a value, or raises an exception of class \<^verbatim>\<open>Exception\<close> (\<open>Raised e\<close> with
  \<^verbatim>\<open>str(e) = e\<close>), or is hit by SIGINT (\<open>Interrupted\<close>): then
  \<^verbatim>\<open>signal_handler\<close> runs and its \<^verbatim>\<open>SystemExit\<close> passes every
  \<^verbatim>\<open>except Exception\<close> clause on the way out.
\<close>

datatype assignment =
    SetStatus check_name status
  | SetDetails check_name "string list"
  | AppendDetail check_name string
  | SetExtra check_name string string
  | ReplaceEntry check_name status "string list"

datatype 'a outcome = Returned 'a | Raised string | Interrupted

record script =
  assignments :: "assignment list"
  ending :: "unit outcome"

fun apply_assignment :: "assignment \<Rightarrow> checks \<Rightarrow> checks" where
  "apply_assignment (SetStatus n s) cs = cs(n := (cs n)\<lparr>status := s\<rparr>)"
| "apply_assignment (SetDetails n ds) cs = cs(n := (cs n)\<lparr>details := ds\<rparr>)"
| "apply_assignment (AppendDetail n d) cs = cs(n := (cs n)\<lparr>details := details (cs n) @ [d]\<rparr>)"
| "apply_assignment (SetExtra n k v) cs = cs(n := (cs n)\<lparr>extras := AList.update k v (extras (cs n))\<rparr>)"
| "apply_assignment (ReplaceEntry n s ds) cs = cs(n := \<lparr>status = s, details = ds, extras = []\<rparr>)"

definition apply_assignments :: "assignment list \<Rightarrow> checks \<Rightarrow> checks" where
  "apply_assignments ws cs = fold apply_assignment ws cs"


definition write_results :: "assignment list \<Rightarrow> world \<Rightarrow> world" where
  "write_results ws w = w\<lparr>results := apply_assignments ws (results w)\<rparr>"

subsection \<open>The environment of a run\<close>

text \<open>
  Three outcomes of a shell command run by \<^verbatim>\<open>run_extraction_command\<close>: exit status
  zero; anything else the function turns into \<^verbatim>\<open>False\<close> (non-zero status, timeout,
  any \<^verbatim>\<open>Exception\<close>); SIGINT while it runs.
\<close>

datatype cmd_result = CmdOk | CmdFailed | CmdInterrupted

text \<open>
  What the tech support collection of \<^verbatim>\<open>generate_techsupport\<close> did. The collection
  command either raises (\<open>CollectRaises\<close>, for instance on its timeout), is interrupted,
  or gives \<open>(output, stderr, returncode)\<close>. The waiting loop depends on the clock: it is
  given by the elapsed time read at the start of each of its iterations and by the value
  of \<^verbatim>\<open>new_tech_file\<close> when it ends (\<open>None\<close> also when that file no longer exists).
\<close>

datatype collect_result =
    CollectRaises string
  | CollectInterrupted
  | Collected string string int

text \<open>
  SIGINT while \<^verbatim>\<open>cleanup_processes\<close> runs: none arrives; or one arrives inside one of
  the \<^verbatim>\<open>try\<close> blocks of that function that end with a bare \<^verbatim>\<open>except:\<close> (around each
  \<^verbatim>\<open>kill\<close> command and around the two \<^verbatim>\<open>pkill\<close> commands), which catches the
  \<^verbatim>\<open>SystemExit\<close> of the handler; or one arrives elsewhere in it (while \<^verbatim>\<open>ps\<close> runs or
  during \<^verbatim>\<open>time.sleep(1)\<close>), where only \<^verbatim>\<open>except Exception\<close> clauses enclose the
  point and the \<^verbatim>\<open>SystemExit\<close> leaves the function.
\<close>

datatype cleanup_signal = NoSignal | SignalSwallowed | SignalExits

text \<open>
  The environment of one run. \<open>getmtime\<close>, \<open>getsize\<close> and \<open>py_int\<close> give \<open>Inl e\<close>
  when the call raises (\<^verbatim>\<open>OSError\<close>, \<^verbatim>\<open>ValueError\<close>, with \<^verbatim>\<open>str(e) = e\<close>);
  \<open>makedirs\<close> gives \<open>Some e\<close> when it raises. \<open>run_command cmd\<close> is the output of a
  command run through \<^verbatim>\<open>run_command\<close>, and \<open>sigint_in_command cmd\<close> tells whether
  SIGINT arrives while that command runs: \<^verbatim>\<open>subprocess.run\<close> is left by the
  \<^verbatim>\<open>SystemExit\<close> of the handler, which the \<^verbatim>\<open>except Exception\<close> of
  \<^verbatim>\<open>run_command_unified\<close> does not catch. \<open>poll_raises\<close> is an exception raised
  inside the waiting loop of \<^verbatim>\<open>generate_techsupport\<close> (an \<^verbatim>\<open>OSError\<close> of
  \<^verbatim>\<open>os.path.getsize\<close> or \<^verbatim>\<open>os.path.getmtime\<close> on a file that vanished).
\<close>

record environment =
  argv :: "string list"
  node_name :: string
  path_exists :: "string \<Rightarrow> bool"
  isdir :: "string \<Rightarrow> bool"
  glob :: "string \<Rightarrow> string list"
  getmtime :: "string \<Rightarrow> string + int"
  getsize :: "string \<Rightarrow> string + int"
  makedirs :: "string \<Rightarrow> string option"
  subdirs :: "string \<Rightarrow> string list"
  run_command :: "string \<Rightarrow> string"
  sigint_in_command :: "string \<Rightarrow> bool"
  run_command_unified :: "string \<Rightarrow> string \<times> string \<times> int"
  run_extraction_command :: "string \<Rightarrow> cmd_result"
  py_int :: "string \<Rightarrow> string + int"
  format_size :: "int \<Rightarrow> string"
  status_writable :: bool
  results_writable :: bool
  collect :: "string \<Rightarrow> collect_result"
  poll_elapsed :: "(int \<times> nat) list"
  poll_found :: "string option"
  poll_raises :: "string option"
  poll_interrupted :: bool
  cleanup_sigint :: cleanup_signal
  fs_view :: os_view
  matcher :: "string \<Rightarrow> string \<Rightarrow> bool"
  body :: "string \<Rightarrow> script"

definition BASE_DIR :: string where
  "BASE_DIR = ''/tmp/ndpreupgradecheck''"

definition node_dir_of :: "environment \<Rightarrow> string" where
  "node_dir_of env = BASE_DIR @ ''/'' @ node_name env"

text \<open>
  \<^verbatim>\<open>update_status\<close>: the global is always updated; the file is rewritten unless the
  write raises, which is caught and printed.
\<close>

definition update_status :: "environment \<Rightarrow> string \<Rightarrow> string \<Rightarrow> int \<Rightarrow> world \<Rightarrow> world" where
  "update_status env status_value operation prog w =
     (let h = \<lparr>hb_status = status_value, current_operation = operation, progress = prog\<rparr>
      in w\<lparr>hb := h,
           status_file := (if status_writable env then status_file w @ [h] else status_file w)\<rparr>)"

text \<open>\<^verbatim>\<open>save_results\<close>: a failure to write is caught and printed.\<close>

definition save_results :: "environment \<Rightarrow> world \<Rightarrow> world" where
  "save_results env w =
     (if results_writable env then w\<lparr>results_file := Some (results w)\<rparr> else w)"

text \<open>
  \<^verbatim>\<open>signal_handler\<close>, up to its \<^verbatim>\<open>sys.exit(130)\<close>; \<^verbatim>\<open>update_status\<close> is called
  without a progress argument, so the progress is the default \<open>0\<close>.
\<close>

definition signal_handler :: "environment \<Rightarrow> world \<Rightarrow> world" where
  "signal_handler env w =
     save_results env (update_status env ''interrupted'' ''Script interrupted by user'' 0 w)"

text \<open>Issuing a shell command leaves a trace.\<close>

definition log_cmd :: "string \<Rightarrow> world \<Rightarrow> world" where
  "log_cmd cmd w = w\<lparr>cmd_log := cmd_log w @ [cmd]\<rparr>"

text \<open>\<^verbatim>\<open>str.split()\<close> without arguments: the maximal runs of non-whitespace.\<close>

fun split_ws_acc :: "string \<Rightarrow> string \<Rightarrow> string list" where
  "split_ws_acc cur [] = (if cur = [] then [] else [cur])"
| "split_ws_acc cur (c # cs) =
     (if is_space c then (if cur = [] then split_ws_acc [] cs else cur # split_ws_acc [] cs)
      else split_ws_acc (cur @ [c]) cs)"

definition split_ws :: "string \<Rightarrow> string list" where
  "split_ws s = split_ws_acc [] s"

text \<open>\<^verbatim>\<open>os.path.basename\<close>: what follows the last separator.\<close>

definition basename :: "string \<Rightarrow> string" where
  "basename p = rev (takeWhile (\<lambda>c. c \<noteq> CHR ''/'') (rev p))"

text \<open>\<^verbatim>\<open>"{0}".format(n)\<close> for an integer.\<close>

fun digits :: "nat \<Rightarrow> string" where
  "digits n = (if n < 10 then [char_of (48 + n)] else digits (n div 10) @ [char_of (48 + n mod 10)])"

definition show_int :: "int \<Rightarrow> string" where
  "show_int i = (if i < 0 then CHR ''-'' # digits (nat (- i)) else digits (nat i))"

subsection \<open>Obtaining the archive: \<^verbatim>\<open>select_techsupport\<close> and \<^verbatim>\<open>generate_techsupport\<close>\<close>

text \<open>
  \<^verbatim>\<open>xs.sort(key=os.path.getmtime, reverse=True)\<close>. The keys are computed for all
  elements first, in list order, and the first \<^verbatim>\<open>OSError\<close> propagates. The sort
  is stable also when reversed: elements with equal keys keep their order.
\<close>

fun with_mtimes :: "(string \<Rightarrow> string + int) \<Rightarrow> string list \<Rightarrow> string + (string \<times> int) list" where
  "with_mtimes mt [] = Inr []"
| "with_mtimes mt (f # fs) =
     (case mt f of
        Inl e \<Rightarrow> Inl e
      | Inr t \<Rightarrow> (case with_mtimes mt fs of Inl e \<Rightarrow> Inl e | Inr r \<Rightarrow> Inr ((f, t) # r)))"

definition newest_first :: "(string \<times> int) list \<Rightarrow> string list" where
  "newest_first kvs = map fst (rev (sort_key snd (rev kvs)))"

definition techsupport_glob :: "environment \<Rightarrow> string" where
  "techsupport_glob env = ''/techsupport/*'' @ node_name env @ ''.tgz''"

text \<open>\<^verbatim>\<open>specific_file and os.path.exists(specific_file)\<close>.\<close>

definition explicit_usable :: "environment \<Rightarrow> string option \<Rightarrow> bool" where
  "explicit_usable env specific_file =
     (case specific_file of None \<Rightarrow> False | Some f \<Rightarrow> f \<noteq> [] \<and> path_exists env f)"

definition select_techsupport ::
  "environment \<Rightarrow> string option \<Rightarrow> world \<Rightarrow> string option outcome \<times> world" where
  "select_techsupport env specific_file w =
     (let w1 = update_status env ''running'' ''Selecting tech support file'' 10 w
      in if explicit_usable env specific_file
         then (Returned specific_file,
               update_status env ''running''
                 (''Selected tech support file: '' @ basename (the specific_file)) 20 w1)
         else
           (let tech_files = glob env (techsupport_glob env)
            in if tech_files = []
               then (Returned None,
                     update_status env ''error'' ''No tech support files found'' 10
                       (write_results
                          [SetStatus techsupport FAIL,
                           AppendDetail techsupport ''No tech support files found''] w1))
               else
                 (case with_mtimes (getmtime env) tech_files of
                    Inl e \<Rightarrow> (Raised e, w1)
                  | Inr kvs \<Rightarrow>
                      (case newest_first kvs of
                         [] \<Rightarrow> (Raised ''list index out of range'', w1)
                       | newest # rest \<Rightarrow>
                           (Returned (Some newest),
                            update_status env ''running''
                              (''Selected tech support file: '' @ basename newest) 20 w1)))))"

text \<open>\<^verbatim>\<open>s.split(sep)\<close> for a separator of one character.\<close>

fun split_on_acc :: "char \<Rightarrow> string \<Rightarrow> string \<Rightarrow> string list" where
  "split_on_acc sep cur [] = [cur]"
| "split_on_acc sep cur (c # cs) =
     (if c = sep then cur # split_on_acc sep [] cs else split_on_acc sep (cur @ [c]) cs)"

definition split_on :: "char \<Rightarrow> string \<Rightarrow> string list" where
  "split_on sep s = split_on_acc sep [] s"

definition get_techsupport_command :: "environment \<Rightarrow> string option \<Rightarrow> string" where
  "get_techsupport_command env nd_version =
     (case nd_version of
        None \<Rightarrow> ''acs techsupport collect -s system''
      | Some v \<Rightarrow>
          if v = [] then ''acs techsupport collect -s system''
          else (case split_on CHR ''.'' v of
                  [] \<Rightarrow> ''acs techsupport collect -s system''
                | part # parts \<Rightarrow>
                    (case py_int env part of
                       Inl e \<Rightarrow> ''acs techsupport collect -s system''
                     | Inr major \<Rightarrow>
                         if major \<ge> 4 then ''acs techsupport collect''
                         else ''acs techsupport collect -s system'')))"

text \<open>
  The failure exits of \<^verbatim>\<open>generate_techsupport\<close> have one shape: the status of the
  \<^verbatim>\<open>techsupport\<close> entry is set, one detail is appended, the heartbeat is updated with
  progress \<open>70\<close>, and \<^verbatim>\<open>None\<close> is returned.
\<close>

definition generate_failed ::
  "environment \<Rightarrow> status \<Rightarrow> string \<Rightarrow> string \<Rightarrow> string \<Rightarrow> world \<Rightarrow> string option outcome \<times> world" where
  "generate_failed env st detail hb_value operation w =
     (Returned None,
      update_status env hb_value operation 70
        (write_results [SetStatus techsupport st, AppendDetail techsupport detail] w))"

text \<open>
  The clock readings are floats, and a float is a dyadic rational: the pair \<open>(m, k)\<close>
  stands for \<open>m / 2\<^sup>k\<close>. \<^verbatim>\<open>int(x)\<close> drops the fractional part of a float, so
  it rounds towards zero (the clock may have been set back, making the elapsed time
  negative). The rounding errors of the floating-point product and quotient are not
  followed.
\<close>

definition py_trunc_quot :: "int \<Rightarrow> int \<Rightarrow> int" where
  "py_trunc_quot a b = (if a < 0 then - ((- a) div b) else a div b)"

text \<open>
  The waiting loop: each iteration writes a progress computed from the elapsed time,
  \<^verbatim>\<open>15 + int(55 * elapsed / 1200)\<close>, while that time is below twenty minutes.
\<close>

definition poll_update :: "environment \<Rightarrow> int \<times> nat \<Rightarrow> world \<Rightarrow> world" where
  "poll_update env elapsed w =
     (case elapsed of
        (m, k) \<Rightarrow>
          if m < 1200 * 2 ^ k
          then update_status env ''running'' ''Waiting for tech support generation''
                 (15 + py_trunc_quot (55 * m) (1200 * 2 ^ k)) w
          else w)"

text \<open>The branch for a non-zero return code of the collection command.\<close>

definition generate_command_failed ::
  "environment \<Rightarrow> string \<Rightarrow> string \<Rightarrow> world \<Rightarrow> string option outcome \<times> world" where
  "generate_command_failed env output stderr w =
     (if str_contains ''unrecognized arguments'' stderr
         \<or> str_contains ''error: unrecognized arguments'' output
      then generate_failed env FAIL ''Tech support command failed: Invalid arguments''
             ''error'' ''Tech support command failed: Invalid arguments'' w
      else if str_contains ''usage:'' stderr \<or> str_contains ''usage:'' output
      then generate_failed env FAIL ''Tech support command failed: Command usage error''
             ''error'' ''Tech support command failed: Command usage error'' w
      else generate_failed env FAIL (''Tech support command failed: '' @ strip stderr)
             ''error'' ''Tech support command failed'' w)"

text \<open>
  After the wait without a new file: the newest archive of the node is used if there
  is any. An exception here is caught by the \<^verbatim>\<open>except Exception\<close> of the function.
\<close>

definition generate_fallback :: "environment \<Rightarrow> world \<Rightarrow> string option outcome \<times> world" where
  "generate_fallback env w =
     (let candidates = glob env (techsupport_glob env)
      in if candidates \<noteq> [] then
           (case with_mtimes (getmtime env) candidates of
              Inl e \<Rightarrow>
                generate_failed env FAIL (''Error generating tech support: '' @ e) ''error''
                  (''Error generating tech support: '' @ e) w
            | Inr kvs \<Rightarrow>
                (case newest_first kvs of
                   [] \<Rightarrow>
                     generate_failed env FAIL
                       ''Error generating tech support: list index out of range'' ''error''
                       ''Error generating tech support: list index out of range'' w
                 | newest # rest \<Rightarrow> (Returned (Some newest), w)))
         else generate_failed env FAIL ''Failed to generate or find tech support files''
                ''error'' ''Failed to find tech support files'' w)"

text \<open>The branch taken when the command reports that the collection has started.\<close>

definition generate_wait :: "environment \<Rightarrow> world \<Rightarrow> string option outcome \<times> world" where
  "generate_wait env w =
     (let w3 = update_status env ''running'' ''Waiting for tech support file generation'' 15 w;
          w4 = fold (poll_update env) (poll_elapsed env) w3
      in if poll_interrupted env then (Interrupted, w4)
         else
           (case poll_raises env of
              Some e \<Rightarrow>
                generate_failed env FAIL (''Error generating tech support: '' @ e) ''error''
                  (''Error generating tech support: '' @ e) w4
            | None \<Rightarrow>
                (let w5 = update_status env ''running'' ''Tech support file generated'' 70 w4
                 in case poll_found env of
                      Some new_tech_file \<Rightarrow> (Returned (Some new_tech_file), w5)
                    | None \<Rightarrow>
                        generate_fallback env
                          (update_status env ''warning'' ''No new tech support found'' 70 w5))))"

definition generate_techsupport ::
  "environment \<Rightarrow> string option \<Rightarrow> world \<Rightarrow> string option outcome \<times> world" where
  "generate_techsupport env nd_version w =
     (let w1 = update_status env ''running'' ''Generating tech support'' 10 w;
          cmd = get_techsupport_command env nd_version;
          w2 = log_cmd cmd w1
      in case collect env cmd of
           CollectInterrupted \<Rightarrow> (Interrupted, w2)
         | CollectRaises e \<Rightarrow>
             generate_failed env FAIL (''Error generating tech support: '' @ e) ''error''
               (''Error generating tech support: '' @ e) w2
         | Collected output stderr returncode \<Rightarrow>
             if returncode \<noteq> 0 then generate_command_failed env output stderr w2
             else if str_contains ''Started: TS collection'' output
                     \<or> str_contains ''TS collection'' output
             then generate_wait env w2
             else generate_failed env WARNING
                    (''Unexpected output from tech support command: '' @ strip output)
                    ''warning'' ''Unexpected output from tech support command'' w2)"

subsection \<open>Extraction: \<^verbatim>\<open>extract_techsupport\<close> and \<^verbatim>\<open>extract_techsupport_optimized\<close>\<close>

text \<open>The shell commands of the two functions, as the format strings build them.\<close>

definition df_tmp_cmd :: string where
  "df_tmp_cmd = ''df -B1 /tmp | tail -1''"

definition df_dir_cmd :: "string \<Rightarrow> string" where
  "df_dir_cmd dir = ''df -B1 '' @ dir @ '' | tail -1''"

definition tar_xzf_cmd :: "string \<Rightarrow> string \<Rightarrow> string" where
  "tar_xzf_cmd dir archive = ''cd '' @ dir @ '' && tar -xzf '' @ archive"

definition tar_xf_cmd :: "string \<Rightarrow> string \<Rightarrow> string" where
  "tar_xf_cmd dir archive = ''cd '' @ dir @ '' && tar -xf '' @ archive"

definition tar_either_cmd :: "string \<Rightarrow> string \<Rightarrow> string" where
  "tar_either_cmd dir archive =
     ''cd '' @ dir @ '' && tar -xzf '' @ archive @ '' 2>/dev/null || tar -xf '' @ archive"

definition gzip_pipe_cmd :: "string \<Rightarrow> string \<Rightarrow> string" where
  "gzip_pipe_cmd dir archive = ''cd '' @ dir @ '' && gzip -dc '' @ archive @ '' | tar -xf -''"

text \<open>
  The failure exits of \<^verbatim>\<open>extract_techsupport\<close>: the \<^verbatim>\<open>techsupport\<close> entry is set
  to \<^verbatim>\<open>FAIL\<close>, one detail is appended and the heartbeat is updated.
\<close>

definition extract_failed :: "environment \<Rightarrow> string \<Rightarrow> string \<Rightarrow> int \<Rightarrow> world \<Rightarrow> world" where
  "extract_failed env detail operation prog w =
     update_status env ''error'' operation prog
       (write_results [SetStatus techsupport FAIL, AppendDetail techsupport detail] w)"

text \<open>
  The end of \<^verbatim>\<open>extract_techsupport\<close>: the first-level directories are listed (an
  exception while listing leaves the list empty); the operation is read from
  \<^verbatim>\<open>sys.argv\<close> again.
\<close>

definition verify_extraction :: "environment \<Rightarrow> string \<Rightarrow> world \<Rightarrow> unit outcome \<times> world" where
  "verify_extraction env node_dir w =
     (if subdirs env node_dir = []
      then (Returned (),
            extract_failed env ''No directories found after extraction''
              ''No directories found after extraction'' 60 w)
      else
        (let operation = (if length (argv env) > 1 then argv env ! 1 else ''select'');
             detail = (if operation = ''generate''
                       then ''Tech support generated and extracted successfully''
                       else ''Tech support extracted successfully'')
         in (Returned (),
             update_status env ''running'' ''Tech support extraction complete'' 90
               (write_results [SetDetails techsupport [detail]] w))))"

text \<open>
  The nested archive: \<^verbatim>\<open>logs.tgz\<close> is extracted when it exists, with
  \<^verbatim>\<open>tar -xzf\<close> and, when that fails, with \<^verbatim>\<open>tar -xf\<close>; the result of the second
  attempt is assigned and never read.
\<close>

definition extract_nested_logs :: "environment \<Rightarrow> string \<Rightarrow> world \<Rightarrow> unit outcome \<times> world" where
  "extract_nested_logs env node_dir w =
     (if path_exists env (node_dir @ ''/logs.tgz'')
      then
        (let logs_extract_cmd = tar_xzf_cmd node_dir ''logs.tgz'';
             w1 = log_cmd logs_extract_cmd w
         in case run_extraction_command env logs_extract_cmd of
              CmdInterrupted \<Rightarrow> (Interrupted, w1)
            | CmdOk \<Rightarrow> verify_extraction env node_dir w1
            | CmdFailed \<Rightarrow>
                (let alt_cmd = tar_xf_cmd node_dir ''logs.tgz'';
                     w2 = log_cmd alt_cmd w1
                 in case run_extraction_command env alt_cmd of
                      CmdInterrupted \<Rightarrow> (Interrupted, w2)
                    | CmdOk \<Rightarrow> verify_extraction env node_dir w2
                    | CmdFailed \<Rightarrow> verify_extraction env node_dir w2))
      else verify_extraction env node_dir w)"

text \<open>
  The free space that \<^verbatim>\<open>extract_techsupport\<close> reads from the output of
  \<^verbatim>\<open>df\<close>: \<^verbatim>\<open>int(parts[3])\<close> when the output has four fields, which raises
  \<^verbatim>\<open>ValueError\<close> on a field that is no number. The value only decides whether a
  warning is printed.
\<close>

definition df_available :: "environment \<Rightarrow> string + int" where
  "df_available env =
     (let parts = split_ws (run_command env df_tmp_cmd)
      in if length parts \<ge> 4 then py_int env (parts ! 3) else Inr 0)"

text \<open>
  \<^verbatim>\<open>extract_techsupport\<close>, the function \<^verbatim>\<open>main\<close> calls. Its body is one
  \<^verbatim>\<open>try\<close> whose \<^verbatim>\<open>except Exception\<close> records the failure, so it never raises. The
  exceptions that can arise inside are the \<^verbatim>\<open>OSError\<close> of \<^verbatim>\<open>os.path.getsize\<close> and
  the \<^verbatim>\<open>ValueError\<close> of \<^verbatim>\<open>int(parts[3])\<close> on the output of \<^verbatim>\<open>df\<close>. The size
  of the archive only decides whether a warning is printed.
\<close>

definition extract_techsupport ::
  "environment \<Rightarrow> string \<Rightarrow> string \<Rightarrow> world \<Rightarrow> unit outcome \<times> world" where
  "extract_techsupport env node_dir file_name w =
     (let file_path = node_dir @ ''/'' @ file_name;
          w1 = update_status env ''running'' ''Extracting tech support archive'' 50 w
      in if \<not> path_exists env file_path
         then (Returned (),
               extract_failed env (''Tech support file '' @ file_path @ '' not found'')
                 ''Tech support file not found for extraction'' 50 w1)
         else
           (case getsize env file_path of
              Inl e \<Rightarrow>
                (Returned (),
                 extract_failed env (''Error extracting tech support file: '' @ e)
                   (''Error extracting tech support file: '' @ e) 70 w1)
            | Inr tech_size \<Rightarrow>
                (let w2 = log_cmd df_tmp_cmd w1
                 in if sigint_in_command env df_tmp_cmd then (Interrupted, w2)
                    else
                      (case df_available env of
                         Inl e \<Rightarrow>
                           (Returned (),
                            extract_failed env (''Error extracting tech support file: '' @ e)
                              (''Error extracting tech support file: '' @ e) 70 w2)
                       | Inr available_bytes \<Rightarrow>
                           (let extract_cmd = tar_xzf_cmd node_dir file_path;
                                w3 = log_cmd extract_cmd w2
                            in case run_extraction_command env extract_cmd of
                                 CmdInterrupted \<Rightarrow> (Interrupted, w3)
                               | CmdOk \<Rightarrow> extract_nested_logs env node_dir w3
                               | CmdFailed \<Rightarrow>
                                   (let alt_extract_cmd = tar_xf_cmd node_dir file_path;
                                        w4 = log_cmd alt_extract_cmd w3
                                    in case run_extraction_command env alt_extract_cmd of
                                         CmdInterrupted \<Rightarrow> (Interrupted, w4)
                                       | CmdOk \<Rightarrow> extract_nested_logs env node_dir w4
                                       | CmdFailed \<Rightarrow>
                                           (Returned (),
                                            extract_failed env ''Failed to extract tech support''
                                              ''Failed to extract tech support'' 60 w4)))))))"

text \<open>
  The decorator \<^verbatim>\<open>robust_check(check_name)\<close>: an \<^verbatim>\<open>Exception\<close> from the wrapped
  function is turned into \<^verbatim>\<open>FAIL\<close> with one detail, and the wrapper returns. The test
  \<^verbatim>\<open>check_name in results["checks"]\<close> holds for every name the decorator is used with.
\<close>

definition robust_check ::
  "check_name \<Rightarrow> (world \<Rightarrow> unit outcome \<times> world) \<Rightarrow> world \<Rightarrow> unit outcome \<times> world" where
  "robust_check name func w =
     (case func w of
        (Raised e, w') \<Rightarrow>
          (Returned (),
           write_results [SetStatus name FAIL, SetDetails name [''Check failed: '' @ e]] w')
      | (Returned u, w') \<Rightarrow> (Returned u, w')
      | (Interrupted, w') \<Rightarrow> (Interrupted, w'))"

text \<open>
  The body of \<^verbatim>\<open>extract_techsupport_optimized\<close>, before decoration. The free space
  reported by \<^verbatim>\<open>df\<close> only decides whether a warning is printed. Every shell command
  goes through \<^verbatim>\<open>run_command_unified\<close>, which returns \<open>(stdout, stderr, returncode)\<close>;
  the return code of the command on \<^verbatim>\<open>logs.tgz\<close> is not looked at.
\<close>

definition optimized_finish :: "environment \<Rightarrow> int \<Rightarrow> string \<Rightarrow> world \<Rightarrow> unit outcome \<times> world" where
  "optimized_finish env tech_size node_dir w =
     (let logs_cmd = tar_either_cmd node_dir ''logs.tgz'';
          nested = path_exists env (node_dir @ ''/logs.tgz'');
          w1 = (if nested then log_cmd logs_cmd w else w)
      in if nested \<and> sigint_in_command env logs_cmd then (Interrupted, w1)
         else
           (let cache = FileCache_init (fs_view env) node_dir;
                extracted_items = find_files (matcher env) cache ''*''
            in if extracted_items \<noteq> []
               then
                 (let dir_count = int (length (filter (isdir env) extracted_items));
                      file_count = int (length extracted_items) - dir_count
                  in (Returned (),
                      update_status env ''running'' ''Optimized extraction completed'' 50
                        (write_results
                           [SetStatus techsupport PASS,
                            AppendDetail techsupport
                              (''Optimized extraction: '' @ show_int dir_count @ '' dirs, ''
                               @ show_int file_count @ '' files, saved ''
                               @ format_size env tech_size)] w1)))
               else (Returned (),
                     write_results
                       [AppendDetail techsupport ''Extraction completed with empty result''] w1)))"

definition extract_techsupport_optimized_body ::
  "environment \<Rightarrow> string \<Rightarrow> string \<Rightarrow> world \<Rightarrow> unit outcome \<times> world" where
  "extract_techsupport_optimized_body env tech_file node_dir w =
     (let w1 = update_status env ''running'' ''Optimized tech support extraction'' 40 w
      in if \<not> path_exists env tech_file
         then (Raised (''Tech support file '' @ tech_file @ '' not found''), w1)
         else
           (case getsize env tech_file of
              Inl e \<Rightarrow> (Raised e, w1)
            | Inr tech_size \<Rightarrow>
                (let w2 = log_cmd (df_dir_cmd node_dir) w1
                 in if sigint_in_command env (df_dir_cmd node_dir) then (Interrupted, w2)
                    else
                      (let extract_cmd = tar_either_cmd node_dir tech_file;
                           w3 = log_cmd extract_cmd w2
                       in if sigint_in_command env extract_cmd then (Interrupted, w3)
                          else
                            (case run_command_unified env extract_cmd of
                               (out, err, returncode) \<Rightarrow>
                                 if returncode \<noteq> 0
                                 then
                                   (let fallback_cmd = gzip_pipe_cmd node_dir tech_file;
                                        w4 = log_cmd fallback_cmd w3
                                    in if sigint_in_command env fallback_cmd then (Interrupted, w4)
                                       else
                                         (case run_command_unified env fallback_cmd of
                                            (out2, err2, returncode2) \<Rightarrow>
                                              if returncode2 \<noteq> 0
                                              then (Raised (''All extraction methods failed: '' @ err2), w4)
                                              else optimized_finish env tech_size node_dir w4))
                                 else optimized_finish env tech_size node_dir w3)))))"

definition extract_techsupport_optimized ::
  "environment \<Rightarrow> string \<Rightarrow> string \<Rightarrow> world \<Rightarrow> unit outcome \<times> world" where
  "extract_techsupport_optimized env tech_file node_dir =
     robust_check techsupport (extract_techsupport_optimized_body env tech_file node_dir)"

text \<open>
  The commands \<^const>\<open>extract_nested_logs\<close> issues for \<^verbatim>\<open>logs.tgz\<close>, and whether
  the output of \<^verbatim>\<open>df\<close> can be read by \<^const>\<open>extract_techsupport\<close>.
\<close>

definition nested_attempts :: "environment \<Rightarrow> string \<Rightarrow> string list" where
  "nested_attempts env node_dir =
     (if path_exists env (node_dir @ ''/logs.tgz'')
      then (case run_extraction_command env (tar_xzf_cmd node_dir ''logs.tgz'') of
              CmdOk \<Rightarrow> [tar_xzf_cmd node_dir ''logs.tgz'']
            | CmdInterrupted \<Rightarrow> [tar_xzf_cmd node_dir ''logs.tgz'']
            | CmdFailed \<Rightarrow> [tar_xzf_cmd node_dir ''logs.tgz'', tar_xf_cmd node_dir ''logs.tgz''])
      else [])"

definition nested_interrupted :: "environment \<Rightarrow> string \<Rightarrow> bool" where
  "nested_interrupted env node_dir =
     (path_exists env (node_dir @ ''/logs.tgz'')
      \<and> (case run_extraction_command env (tar_xzf_cmd node_dir ''logs.tgz'') of
            CmdOk \<Rightarrow> False
          | CmdInterrupted \<Rightarrow> True
          | CmdFailed \<Rightarrow>
              run_extraction_command env (tar_xf_cmd node_dir ''logs.tgz'') = CmdInterrupted))"

definition df_readable :: "environment \<Rightarrow> bool" where
  "df_readable env = (case df_available env of Inl e \<Rightarrow> False | Inr n \<Rightarrow> True)"

subsection \<open>The checks as \<^verbatim>\<open>main\<close> runs them\<close>

text \<open>
  Each of the thirteen check functions starts with \<^verbatim>\<open>update_status("running", label, n)\<close>
  and makes no other heartbeat update; seven carry the decorator. \<^verbatim>\<open>main\<close> calls
  each inside its own \<^verbatim>\<open>try\<close>, whose \<^verbatim>\<open>except Exception\<close> assigns a status and a
  details list to one entry. A row holds, for one check: the function, the label and
  the progress of its heartbeat update, the decorator's argument if it is decorated,
  and the entry, status and details of the handler in \<^verbatim>\<open>main\<close>. What the rest of the
  function body does depends on the evidence and on live commands; it is the
  \<^typ>\<open>script\<close> that the environment gives for the function.
\<close>

record check_row =
  fn_name :: string
  operation_label :: string
  progress_value :: int
  decorated :: "check_name option"
  handler_entry :: check_name
  handler_status :: status
  handler_details :: "string \<Rightarrow> string list"

definition check_failed :: "string \<Rightarrow> string list" where
  "check_failed e = [''Check failed: '' @ e]"

definition main_checks :: "check_row list" where
  "main_checks =
     [\<lparr>fn_name = ''check_subnet_isolation'', operation_label = ''Checking subnet isolation'',
       progress_value = 93, decorated = None,
       handler_entry = subnet_check, handler_status = FAIL, handler_details = check_failed\<rparr>,
      \<lparr>fn_name = ''check_ping_reachability'', operation_label = ''Checking node reachability'',
       progress_value = 92, decorated = None,
       handler_entry = ping_check, handler_status = FAIL, handler_details = check_failed\<rparr>,
      \<lparr>fn_name = ''check_node_status'', operation_label = ''Checking node status'',
       progress_value = 92, decorated = None,
       handler_entry = node_status, handler_status = FAIL, handler_details = check_failed\<rparr>,
      \<lparr>fn_name = ''check_disk_space'', operation_label = ''Checking disk space'',
       progress_value = 94, decorated = None,
       handler_entry = disk_space, handler_status = FAIL, handler_details = check_failed\<rparr>,
      \<lparr>fn_name = ''check_pods'', operation_label = ''Optimized kubernetes pod checking'',
       progress_value = 96, decorated = Some pod_status,
       handler_entry = pod_status, handler_status = FAIL, handler_details = check_failed\<rparr>,
      \<lparr>fn_name = ''check_system_health'', operation_label = ''Checking system health'',
       progress_value = 98, decorated = None,
       handler_entry = system_health, handler_status = FAIL, handler_details = check_failed\<rparr>,
      \<lparr>fn_name = ''check_nxos_discovery_service'',
       operation_label = ''Checking NXOS Discovery Service'',
       progress_value = 98, decorated = None,
       handler_entry = nxos_discovery_service, handler_status = FAIL,
       handler_details = check_failed\<rparr>,
      \<lparr>fn_name = ''check_CA_CSCwm35992'', operation_label = ''Optimized CA certificate bug check'',
       progress_value = 95, decorated = Some certificate_check,
       handler_entry = certificate_check, handler_status = FAIL,
       handler_details = check_failed\<rparr>,
      \<lparr>fn_name = ''check_ISOs_CSCwn94394'', operation_label = ''Optimized multiple ISOs check'',
       progress_value = 95, decorated = Some iso_check,
       handler_entry = iso_check, handler_status = FAIL, handler_details = check_failed\<rparr>,
      \<lparr>fn_name = ''check_lvm_pvs'', operation_label = ''Optimized LVM PVs check'',
       progress_value = 95, decorated = Some lvm_pvs_check,
       handler_entry = lvm_pvs_check, handler_status = FAIL,
       handler_details = (\<lambda>e. [''No empty Elasticsearch PVs found''])\<rparr>,
      \<lparr>fn_name = ''check_persistent_ip_config'',
       operation_label = ''Checking persistent IP configuration'',
       progress_value = 97, decorated = Some persistent_ip_check,
       handler_entry = persistent_ip_check, handler_status = FAIL,
       handler_details = check_failed\<rparr>,
      \<lparr>fn_name = ''check_atom0_nvme'', operation_label = ''Checking NVME drive health'',
       progress_value = 97, decorated = Some atom0_nvme_check,
       handler_entry = atom0_nvme_check, handler_status = WARNING,
       handler_details = (\<lambda>e. [''Unable to verify NVME drive health''])\<rparr>,
      \<lparr>fn_name = ''check_atom0_vg'', operation_label = ''Checking atom0 VG space'',
       progress_value = 98, decorated = Some atom0_vg_check,
       handler_entry = atom0_vg_check, handler_status = WARNING,
       handler_details = (\<lambda>e. [''Unable to verify if atom0 vg has >50G free space''])\<rparr>]"

text \<open>The undecorated function: the heartbeat update, then the body.\<close>

definition check_function :: "environment \<Rightarrow> check_row \<Rightarrow> world \<Rightarrow> unit outcome \<times> world" where
  "check_function env row w =
     (let w1 = update_status env ''running'' (operation_label row) (progress_value row) w;
          sc = body env (fn_name row)
      in (ending sc, write_results (assignments sc) w1))"

text \<open>The function as \<^verbatim>\<open>main\<close> sees it, decorated or not.\<close>

definition call_check :: "environment \<Rightarrow> check_row \<Rightarrow> world \<Rightarrow> unit outcome \<times> world" where
  "call_check env row =
     (case decorated row of
        None \<Rightarrow> check_function env row
      | Some name \<Rightarrow> robust_check name (check_function env row))"

text \<open>One \<^verbatim>\<open>try: check() except Exception as e: ...\<close> block of \<^verbatim>\<open>main\<close>.\<close>

definition run_check :: "environment \<Rightarrow> check_row \<Rightarrow> world \<Rightarrow> unit outcome \<times> world" where
  "run_check env row w =
     (case call_check env row w of
        (Raised e, w') \<Rightarrow>
          (Returned (),
           write_results
             [SetStatus (handler_entry row) (handler_status row),
              SetDetails (handler_entry row) (handler_details row e)] w')
      | (Returned u, w') \<Rightarrow> (Returned u, w')
      | (Interrupted, w') \<Rightarrow> (Interrupted, w'))"

text \<open>
  The blocks in sequence. Only SIGINT ends the sequence early. The handlers are
  subscript assignments with literal keys and raise nothing, so the enclosing
  \<^verbatim>\<open>except Exception\<close> of \<^verbatim>\<open>main\<close> around all blocks has nothing to catch.
\<close>

fun run_checks :: "environment \<Rightarrow> check_row list \<Rightarrow> world \<Rightarrow> unit outcome \<times> world" where
  "run_checks env [] w = (Returned (), w)"
| "run_checks env (row # rows) w =
     (case run_check env row w of
        (Interrupted, w') \<Rightarrow> (Interrupted, w')
      | (Returned u, w') \<Rightarrow> run_checks env rows w'
      | (Raised e, w') \<Rightarrow> run_checks env rows w')"

subsection \<open>\<^verbatim>\<open>main\<close>\<close>

text \<open>
  The loop of the top-level handler: every entry whose details list is empty is set to
  \<^verbatim>\<open>FAIL\<close> with one detail.
\<close>

definition mark_unrun :: "string \<Rightarrow> checks \<Rightarrow> checks" where
  "mark_unrun msg cs =
     (\<lambda>n. if details (cs n) = [] then (cs n)\<lparr>status := FAIL, details := [msg]\<rparr> else cs n)"

text \<open>The top-level \<^verbatim>\<open>except Exception as e\<close>, which returns \<open>1\<close>.\<close>

definition top_level_error :: "environment \<Rightarrow> string \<Rightarrow> world \<Rightarrow> int \<times> world" where
  "top_level_error env e w =
     (1, save_results env
           (update_status env ''error'' (''Error: '' @ e) 0
              (w\<lparr>results := mark_unrun (''Check did not run due to script error: '' @ e)
                               (results w)\<rparr>)))"

text \<open>SIGINT: the handler runs on the state of that moment and the process exits with 130.\<close>

definition interrupted :: "environment \<Rightarrow> world \<Rightarrow> int \<times> world" where
  "interrupted env w = (130, signal_handler env w)"

text \<open>The exit taken when no archive was obtained.\<close>

definition no_archive :: "environment \<Rightarrow> world \<Rightarrow> int \<times> world" where
  "no_archive env w =
     (1, save_results env
           (write_results
              [SetStatus techsupport FAIL,
               SetDetails techsupport [''Failed to obtain tech support file'']]
              (update_status env ''error'' ''Failed to obtain tech support file'' 0 w)))"

text \<open>The normal end of \<^verbatim>\<open>main\<close>, which returns \<open>0\<close>.\<close>

definition complete :: "environment \<Rightarrow> world \<Rightarrow> int \<times> world" where
  "complete env w =
     (0, save_results env (update_status env ''complete'' ''All operations completed'' 100 w))"

text \<open>
  From the copy of the archive into the working directory to the end. The result of
  \<^verbatim>\<open>extract_techsupport\<close> is not looked at: whatever it recorded, the checks run.
\<close>

definition process_archive :: "environment \<Rightarrow> string \<Rightarrow> world \<Rightarrow> int \<times> world" where
  "process_archive env tech_file w =
     (let node_dir = node_dir_of env
      in case makedirs env node_dir of
           Some e \<Rightarrow> top_level_error env e w
         | None \<Rightarrow>
             (let file_name = basename tech_file;
                  dest_path = node_dir @ ''/'' @ file_name;
                  copy_cmd = ''cp '' @ tech_file @ '' '' @ dest_path;
                  w1 = log_cmd copy_cmd w
              in if sigint_in_command env copy_cmd then interrupted env w1
                 else
                   (case extract_techsupport env node_dir file_name w1 of
                      (Interrupted, w2) \<Rightarrow> interrupted env w2
                    | (Raised e, w2) \<Rightarrow> top_level_error env e w2
                    | (Returned u, w2) \<Rightarrow>
                        (case run_checks env main_checks w2 of
                           (Interrupted, w3) \<Rightarrow> interrupted env w3
                         | (Raised e, w3) \<Rightarrow> top_level_error env e w3
                         | (Returned u', w3) \<Rightarrow> complete env w3))))"

text \<open>
  The command line: \<^verbatim>\<open>sys.argv[1]\<close> is the operation (\<^verbatim>\<open>select\<close> when absent),
  \<^verbatim>\<open>sys.argv[2]\<close> an explicit archive path, \<^verbatim>\<open>sys.argv[3]\<close> the version.
\<close>

definition acquire_archive :: "environment \<Rightarrow> world \<Rightarrow> string option outcome \<times> world" where
  "acquire_archive env w =
     (let operation = (if length (argv env) > 1 then argv env ! 1 else ''select'');
          tech_support_path = (if length (argv env) > 2 then Some (argv env ! 2) else None);
          nd_version = (if length (argv env) > 3 then Some (argv env ! 3) else None)
      in if operation = ''generate'' then generate_techsupport env nd_version w
         else select_techsupport env tech_support_path w)"

text \<open>
  The \<^verbatim>\<open>try\<close> block of \<^verbatim>\<open>main\<close> with its \<^verbatim>\<open>except Exception\<close> clause, and the
  exit code it leads to: the value returned, or \<open>130\<close> when the \<^verbatim>\<open>SystemExit\<close> of
  the signal handler is on its way out. \<^verbatim>\<open>check_tmp_space\<close> runs one \<^verbatim>\<open>df\<close>
  command and only prints. SIGINT is followed where the run waits for something
  outside: during the commands run by \<^verbatim>\<open>check_tmp_space\<close>, by \<^verbatim>\<open>main\<close> itself and
  by \<^verbatim>\<open>extract_techsupport\<close>, during the collection of a new archive and the wait
  for it, and inside a check body. A SIGINT that falls between two statements of
  \<^verbatim>\<open>main\<close> itself is not followed.
\<close>

definition start_world :: world where
  "start_world = log_cmd ''df -BM /tmp | tail -1'' initial_world"

definition main_try :: "environment \<Rightarrow> int \<times> world" where
  "main_try env =
     (case makedirs env BASE_DIR of
        Some e \<Rightarrow> top_level_error env e initial_world
      | None \<Rightarrow>
          if sigint_in_command env ''df -BM /tmp | tail -1'' then interrupted env start_world
          else
            (case acquire_archive env start_world of
               (Interrupted, w1) \<Rightarrow> interrupted env w1
             | (Raised e, w1) \<Rightarrow> top_level_error env e w1
             | (Returned tech_file, w1) \<Rightarrow>
                 (case tech_file of
                    None \<Rightarrow> no_archive env w1
                  | Some f \<Rightarrow> if f = [] then no_archive env w1 else process_archive env f w1)))"

text \<open>
  \<^verbatim>\<open>cleanup_processes\<close> lists the child processes with \<^verbatim>\<open>ps\<close>, sends them
  \<^verbatim>\<open>kill\<close>, and runs two \<^verbatim>\<open>pkill\<close> commands; it writes neither the aggregate nor
  the heartbeat. A SIGINT that arrives while it works runs the handler; whether the
  \<^verbatim>\<open>SystemExit\<close> of the handler leaves the function depends on where it arrives.
\<close>

definition cleanup_processes :: "environment \<Rightarrow> world \<Rightarrow> unit outcome \<times> world" where
  "cleanup_processes env w =
     (case cleanup_sigint env of
        NoSignal \<Rightarrow> (Returned (), w)
      | SignalSwallowed \<Rightarrow> (Returned (), signal_handler env w)
      | SignalExits \<Rightarrow> (Interrupted, signal_handler env w))"

text \<open>
  \<^verbatim>\<open>main\<close> with the exit code of the process, \<^verbatim>\<open>sys.exit(main())\<close>. The
  \<^verbatim>\<open>finally\<close> clause runs \<^verbatim>\<open>cleanup_processes\<close> on every way out of the
  \<^verbatim>\<open>try\<close> block; when it ends normally the pending return value or
  \<^verbatim>\<open>SystemExit\<close> stands, and a \<^verbatim>\<open>SystemExit\<close> that leaves it replaces both.
\<close>

definition main :: "environment \<Rightarrow> int \<times> world" where
  "main env =
     (case main_try env of
        (code, w) \<Rightarrow>
          (case cleanup_processes env w of
             (Interrupted, w') \<Rightarrow> (130, w')
           | (Returned u, w') \<Rightarrow> (code, w')
           | (Raised e, w') \<Rightarrow> (code, w')))"

subsection \<open>Notions used in the statements about a run\<close>

text \<open>The heartbeat a check function writes when it starts.\<close>

definition row_heartbeat :: "check_row \<Rightarrow> heartbeat" where
  "row_heartbeat row =
     \<lparr>hb_status = ''running'', current_operation = operation_label row,
      progress = progress_value row\<rparr>"

text \<open>
  The setup failures after which \<^verbatim>\<open>main\<close> returns \<open>1\<close>: the base directory
  cannot be created, the acquisition raises or yields no archive, or the node
  directory cannot be created.
\<close>

definition setup_failed :: "environment \<Rightarrow> bool" where
  "setup_failed env =
     (makedirs env BASE_DIR \<noteq> None
      \<or> (case fst (acquire_archive env start_world) of
            Returned None \<Rightarrow> True
          | Returned (Some f) \<Rightarrow> f = [] \<or> makedirs env (node_dir_of env) \<noteq> None
          | Raised e \<Rightarrow> True
          | Interrupted \<Rightarrow> False))"

text \<open>
  The archive \<^verbatim>\<open>main\<close> goes on with, and its copy in the working directory.
\<close>

definition acquired :: "environment \<Rightarrow> string option" where
  "acquired env =
     (case fst (acquire_archive env start_world) of
        Returned (Some f) \<Rightarrow> if f = [] then None else Some f
      | Returned None \<Rightarrow> None
      | Raised e \<Rightarrow> None
      | Interrupted \<Rightarrow> None)"

definition dest_path_of :: "environment \<Rightarrow> string \<Rightarrow> string" where
  "dest_path_of env tech_file = node_dir_of env @ ''/'' @ basename tech_file"

text \<open>
  The places where a SIGINT can arrive, read off the environment. During the
  acquisition: while the collection command runs, or during the wait that follows
  when the command has reported a started collection.
\<close>

definition sigint_in_acquisition :: "environment \<Rightarrow> bool" where
  "sigint_in_acquisition env =
     (length (argv env) > 1 \<and> argv env ! 1 = ''generate''
      \<and> (case collect env (get_techsupport_command env
                  (if length (argv env) > 3 then Some (argv env ! 3) else None)) of
            CollectInterrupted \<Rightarrow> True
          | CollectRaises e \<Rightarrow> False
          | Collected output stderr returncode \<Rightarrow>
              returncode = 0
              \<and> (str_contains ''Started: TS collection'' output \<or> str_contains ''TS collection'' output)
              \<and> poll_interrupted env))"

text \<open>
  The two attempts on an archive taken together: the result of \<^verbatim>\<open>tar -xzf\<close>, and
  that of \<^verbatim>\<open>tar -xf\<close> when the first has failed.
\<close>

definition tar_chain :: "environment \<Rightarrow> string \<Rightarrow> string \<Rightarrow> cmd_result" where
  "tar_chain env node_dir archive =
     (case run_extraction_command env (tar_xzf_cmd node_dir archive) of
        CmdFailed \<Rightarrow> run_extraction_command env (tar_xf_cmd node_dir archive)
      | CmdOk \<Rightarrow> CmdOk
      | CmdInterrupted \<Rightarrow> CmdInterrupted)"

text \<open>
  The \<^verbatim>\<open>tar\<close> commands of \<^verbatim>\<open>extract_techsupport\<close> are reached when the copy of
  the archive exists, its size can be read and the output of \<^verbatim>\<open>df\<close> can be parsed.
\<close>

definition size_readable :: "environment \<Rightarrow> string \<Rightarrow> bool" where
  "size_readable env file_path = (case getsize env file_path of Inl e \<Rightarrow> False | Inr n \<Rightarrow> True)"

definition sigint_in_extraction :: "environment \<Rightarrow> string \<Rightarrow> bool" where
  "sigint_in_extraction env tech_file =
     (path_exists env (dest_path_of env tech_file)
      \<and> size_readable env (dest_path_of env tech_file)
      \<and> (sigint_in_command env df_tmp_cmd
         \<or> df_readable env
           \<and> (tar_chain env (node_dir_of env) (dest_path_of env tech_file) = CmdInterrupted
              \<or> tar_chain env (node_dir_of env) (dest_path_of env tech_file) = CmdOk
                \<and> nested_interrupted env (node_dir_of env))))"

definition sigint_in_checks :: "environment \<Rightarrow> bool" where
  "sigint_in_checks env =
     list_ex (\<lambda>row. ending (body env (fn_name row)) = Interrupted) main_checks"

text \<open>
  A SIGINT ends the run when it arrives at one of the places above that the run
  reaches, or in \<^verbatim>\<open>cleanup_processes\<close> outside the blocks that swallow it.
\<close>

definition sigint_in_run :: "environment \<Rightarrow> bool" where
  "sigint_in_run env =
     (makedirs env BASE_DIR = None
      \<and> (sigint_in_command env ''df -BM /tmp | tail -1''
         \<or> sigint_in_acquisition env
         \<or> (case acquired env of
               None \<Rightarrow> False
             | Some f \<Rightarrow>
                 makedirs env (node_dir_of env) = None
                 \<and> (sigint_in_command env (''cp '' @ f @ '' '' @ dest_path_of env f)
                    \<or> sigint_in_extraction env f
                    \<or> sigint_in_checks env))))"




text \<open>The entry the top-level handler forces on a check without details.\<close>

definition did_not_run :: "string \<Rightarrow> check_result \<Rightarrow> check_result" where
  "did_not_run e r =
     r\<lparr>status := FAIL, details := [''Check did not run due to script error: '' @ e]\<rparr>"

subsection \<open>Two check bodies: \<^verbatim>\<open>check_CA_CSCwm35992\<close> and \<^verbatim>\<open>check_ISOs_CSCwn94394\<close>\<close>

text \<open>
  \<^verbatim>\<open>sep.join(xs)\<close>, \<^verbatim>\<open>s.strip(chars)\<close> and the text after the first occurrence of
  a substring.
\<close>

fun join :: "string \<Rightarrow> string list \<Rightarrow> string" where
  "join sep [] = []"
| "join sep [x] = x"
| "join sep (x # y # ys) = x @ sep @ join sep (y # ys)"

definition strip_chars :: "string \<Rightarrow> string \<Rightarrow> string" where
  "strip_chars chars s =
     rev (dropWhile (\<lambda>c. c \<in> set chars) (rev (dropWhile (\<lambda>c. c \<in> set chars) s)))"

fun after_first :: "string \<Rightarrow> string \<Rightarrow> string option" where
  "after_first pat [] = (if pat = [] then Some [] else None)"
| "after_first pat (c # cs) =
     (if prefix pat (c # cs) then Some (drop (length pat) (c # cs)) else after_first pat cs)"

text \<open>\<^verbatim>\<open>output.strip().split('\n')\<close>.\<close>

definition output_lines :: "string \<Rightarrow> string list" where
  "output_lines output = split_on (CHR 0x0A) (strip output)"

text \<open>
  The two functions obtain the cache from \<^verbatim>\<open>get_file_cache()\<close>, which builds it
  over the node directory on first use and hands the same object out afterwards.
\<close>

definition get_file_cache :: "environment \<Rightarrow> FileCache" where
  "get_file_cache env = FileCache_init (fs_view env) (node_dir_of env)"

definition common_dirs :: "string list" where
  "common_dirs = [''systeminfo'', ''logs'', ''k8-diag'', ''storage-diag'']"

definition extracted_common_dirs :: "environment \<Rightarrow> string list" where
  "extracted_common_dirs env =
     filter (\<lambda>d. path_exists env (node_dir_of env @ ''/'' @ d)) common_dirs"

definition returning :: "assignment list \<Rightarrow> script" where
  "returning ws = \<lparr>assignments = ws, ending = Returned ()\<rparr>"

subsubsection \<open>The ISO check\<close>

definition iso_search_string :: string where
  "iso_search_string = ''invalid number of ISO''"

definition iso_search_cmd :: "environment \<Rightarrow> string" where
  "iso_search_cmd env =
     ''find '' @ node_dir_of env @ '' -type f -name 'boot-hook*' -print0 | xargs -0 zgrep ''
     @ [CHR 0x27] @ iso_search_string @ [CHR 0x27] @ '' 2>/dev/null || true''"

definition iso_list_cmd :: "environment \<Rightarrow> string" where
  "iso_list_cmd env =
     ''zgrep 'iso list' '' @ node_dir_of env @ ''/conf-diag/boot-hook* 2>/dev/null || zgrep 'iso list' ''
     @ node_dir_of env @ ''/boot-hook* 2>/dev/null || true''"

text \<open>
  \<^verbatim>\<open>re.search(r'"iso list":\[(.*?)\]', line)\<close> on a line without line breaks: the
  text between the first \<^verbatim>\<open>"iso list":[\<close> and the next \<^verbatim>\<open>]\<close>, if there is one.
\<close>

definition iso_list_group :: "string \<Rightarrow> string option" where
  "iso_list_group line =
     (case after_first (CHR 0x22 # ''iso list'' @ [CHR 0x22] @ '':['') line of
        None \<Rightarrow> None
      | Some rest \<Rightarrow>
          if CHR '']'' \<in> set rest then Some (takeWhile (\<lambda>c. c \<noteq> CHR '']'') rest) else None)"

text \<open>The loop over the lines, which breaks at the first line the expression matches.\<close>

fun first_iso_list :: "string list \<Rightarrow> string list" where
  "first_iso_list [] = []"
| "first_iso_list (line # lines) =
     (if str_contains ''iso list'' line
      then (case iso_list_group line of
              Some iso_string \<Rightarrow>
                map (strip_chars ('' '' @ [CHR 0x22, CHR 0x27])) (split_on CHR '','' iso_string)
            | None \<Rightarrow> first_iso_list lines)
      else first_iso_list lines)"

definition numbered :: "string list \<Rightarrow> string list" where
  "numbered xs = map (\<lambda>(i, x). ''['' @ show_int (int i + 1) @ ''] '' @ x) (enumerate 0 xs)"

definition iso_boot_hook_files :: "environment \<Rightarrow> string list" where
  "iso_boot_hook_files env = find_files (matcher env) (get_file_cache env) ''boot-hook*''"

definition iso_files_examined :: "environment \<Rightarrow> bool" where
  "iso_files_examined env =
     (if iso_boot_hook_files env \<noteq> [] then True
      else if path_exists env (node_dir_of env @ ''/conf-diag'') then True
      else extracted_common_dirs env \<noteq> [])"

definition iso_matches :: "environment \<Rightarrow> string list" where
  "iso_matches env =
     (if iso_boot_hook_files env \<noteq> []
      then (let output = run_command env (iso_search_cmd env)
            in if output \<noteq> [] \<and> \<not> prefix ''Error:'' output
                  \<and> str_contains iso_search_string output
               then output_lines output else [])
      else [])"

definition iso_fail_detail :: "environment \<Rightarrow> string \<Rightarrow> string" where
  "iso_fail_detail env first_match =
     (let iso_output = run_command env (iso_list_cmd env);
          iso_list = (if iso_output \<noteq> [] \<and> str_contains ''iso list'' iso_output
                      then first_iso_list (output_lines iso_output) else []);
          match_formatted = join ''\<newline>    '' (output_lines first_match)
      in if iso_list \<noteq> []
         then ''Multiple ISOs in boot-hook detected: \<newline>\<newline>    '' @ match_formatted
              @ ''\<newline>\<newline>    Multiple ISOs found:\<newline>    ''
              @ join ''\<newline>    '' (numbered iso_list)
         else ''Multiple ISOs in boot-hook detected: \<newline>\<newline>    '' @ match_formatted)"

text \<open>The body of \<^verbatim>\<open>check_ISOs_CSCwn94394\<close> after its heartbeat update.\<close>

definition check_ISOs_CSCwn94394 :: "environment \<Rightarrow> script" where
  "check_ISOs_CSCwn94394 env =
     (case iso_matches env of
        [] \<Rightarrow>
          if \<not> iso_files_examined env
          then returning
                 [SetStatus iso_check ERROR,
                  SetDetails iso_check [''Unable to find boot-hook logs for multiple ISO check'']]
          else returning
                 [SetStatus iso_check PASS,
                  SetDetails iso_check [''No multiple ISO issues found'']]
      | first_match # others \<Rightarrow>
          returning
            [SetStatus iso_check FAIL,
             SetDetails iso_check [iso_fail_detail env first_match],
             SetExtra iso_check ''explanation''
               ''Only one ISO can be in the firmware directory on the running ND version.'',
             SetExtra iso_check ''recommendation''
               ''Contact TAC for assistance in removing the unneeded ISO images.'',
             SetExtra iso_check ''reference''
               ''https://bst.cloudapps.cisco.com/bugsearch/bug/CSCwn94394''])"

subsubsection \<open>The certificate check\<close>

definition ca_search_string :: string where
  "ca_search_string = ''a valid config key must consist of alphanumeric characters''"

definition ca_search_cmd :: "environment \<Rightarrow> string" where
  "ca_search_cmd env =
     ''zgrep '' @ [CHR 0x27] @ ca_search_string @ [CHR 0x27] @ '' '' @ node_dir_of env
     @ ''/logs/k8_infra/sm/sm.log*.gz 2>/dev/null || zgrep '' @ [CHR 0x27] @ ca_search_string
     @ [CHR 0x27] @ '' '' @ node_dir_of env
     @ ''/logs/k8_infra/sm/sm.log* 2>/dev/null || echo 'No matches found'' @ [CHR 0x27]"

definition find_sm_dirs_cmd :: "environment \<Rightarrow> string" where
  "find_sm_dirs_cmd env = ''find '' @ node_dir_of env @ '' -type d -path '*/sm' -print''"

definition ca_sm_log_files :: "environment \<Rightarrow> string list" where
  "ca_sm_log_files env =
     find_files (matcher env) (get_file_cache env) ''sm.log*''
     @ find_files (matcher env) (get_file_cache env) ''*/sm/sm.log*''"

definition ca_matches :: "environment \<Rightarrow> string list" where
  "ca_matches env =
     (let output = run_command env (ca_search_cmd env)
      in if output \<noteq> [] \<and> \<not> str_contains ''No matches found'' output
            \<and> str_contains ca_search_string output
         then output_lines output else [])"

definition ca_sm_dirs :: "environment \<Rightarrow> string list" where
  "ca_sm_dirs env = filter (\<lambda>d. d \<noteq> []) (output_lines (run_command env (find_sm_dirs_cmd env)))"

text \<open>
  The body of \<^verbatim>\<open>check_CA_CSCwm35992\<close> after its heartbeat update. The local
  \<^verbatim>\<open>files_found\<close> is assigned \<^verbatim>\<open>True\<close> on every branch but the last one of the
  search for evidence, and has no initial value: when nothing of the tree exists, the
  final \<^verbatim>\<open>if not files_found\<close> raises \<^verbatim>\<open>UnboundLocalError\<close>, and the assignment of
  \<^verbatim>\<open>ERROR\<close> that follows it in the source is never reached. The text of that error
  is the one of Python up to 3.10.
\<close>

definition check_CA_CSCwm35992 :: "environment \<Rightarrow> script" where
  "check_CA_CSCwm35992 env =
     (if ca_sm_log_files env \<noteq> []
      then
        (case ca_matches env of
           [] \<Rightarrow>
             returning
               [SetStatus certificate_check PASS,
                SetDetails certificate_check [''No certificate issues found in SM logs'']]
         | first_match # others \<Rightarrow>
             returning
               [SetStatus certificate_check FAIL,
                SetDetails certificate_check
                  [''Certificate name validation error detected: \<newline>\<newline>    ''
                   @ join ''\<newline>    '' (output_lines first_match)],
                SetExtra certificate_check ''explanation''
                  ''Certificate names with spaces are not supported.'',
                SetExtra certificate_check ''recommendation''
                  ''Prior to upgrading, remove this CA certificate and re-add it with a name\<newline>  without spaces.'',
                SetExtra certificate_check ''reference''
                  ''https://bst.cloudapps.cisco.com/bugsearch/bug/CSCwm35992''])
      else if ca_sm_dirs env \<noteq> []
      then returning
             [SetStatus certificate_check WARNING,
              SetDetails certificate_check [''Found SM directories but no log files to analyze'']]
      else if path_exists env (node_dir_of env @ ''/logs'')
              \<or> path_exists env (node_dir_of env @ ''/logs/k8_infra'')
      then returning
             [SetStatus certificate_check WARNING,
              SetDetails certificate_check [''Found logs directory but no SM log files'']]
      else if extracted_common_dirs env \<noteq> []
      then returning
             [SetStatus certificate_check WARNING,
              SetDetails certificate_check [''Tech support is missing logs/k8_infra directory'']]
      else \<lparr>assignments = [],
            ending = Raised ''local variable 'files_found' referenced before assignment''\<rparr>)"

text \<open>An environment whose scripts for these two functions are the bodies above.\<close>

definition with_modelled_checks :: "environment \<Rightarrow> environment" where
  "with_modelled_checks env =
     env\<lparr>body := (\<lambda>f. if f = ''check_CA_CSCwm35992'' then check_CA_CSCwm35992 env
                      else if f = ''check_ISOs_CSCwn94394'' then check_ISOs_CSCwn94394 env
                      else body env f)\<rparr>"

definition iso_row :: check_row where
  "iso_row = main_checks ! 8"

definition ca_row :: check_row where
  "ca_row = main_checks ! 7"

subsection \<open>Environments to run the model in\<close>

text \<open>
  A node \<^verbatim>\<open>nd1\<close> started with \<^verbatim>\<open>select\<close> and no explicit path. One archive is in
  \<^verbatim>\<open>/techsupport\<close>; it is copied, \<^verbatim>\<open>tar -xzf\<close> succeeds and leaves two
  directories and no \<^verbatim>\<open>logs.tgz\<close>; both files can be written; no signal arrives.
  The command \<^verbatim>\<open>df\<close> prints nothing that is read (on an output of fewer than four
  fields the space test is skipped).
  Every check body returns without an exception; the heartbeat and the exit code do
  not depend on what the bodies assign.
\<close>

definition nd1_env :: environment where
  "nd1_env =
     \<lparr>argv = [''worker_functions.py'', ''select''],
      node_name = ''nd1'',
      path_exists = (\<lambda>p. p = ''/tmp/ndpreupgradecheck/nd1/2025-05-29-nd1.tgz''),
      isdir = (\<lambda>p. False),
      glob = (\<lambda>p. if p = ''/techsupport/*nd1.tgz'' then [''/techsupport/2025-05-29-nd1.tgz''] else []),
      getmtime = (\<lambda>p. Inr 1748500000),
      getsize = (\<lambda>p. Inr 1000),
      makedirs = (\<lambda>p. None),
      subdirs = (\<lambda>p. [''logs'', ''k8-diag'']),
      run_command = (\<lambda>c. ''''),
      sigint_in_command = (\<lambda>c. False),
      run_command_unified = (\<lambda>c. ('''', '''', 0)),
      run_extraction_command = (\<lambda>c. CmdOk),
      py_int = (\<lambda>s. Inr 0),
      format_size = (\<lambda>n. ''1000 B''),
      status_writable = True,
      results_writable = True,
      collect = (\<lambda>c. Collected '''' '''' 1),
      poll_elapsed = [],
      poll_found = None,
      poll_raises = None,
      poll_interrupted = False,
      cleanup_sigint = NoSignal,
      fs_view = demo_os,
      matcher = fnmatch_glob,
      body = (\<lambda>f. \<lparr>assignments = [], ending = Returned ()\<rparr>)\<rparr>"

text \<open>The same node when neither form of \<^verbatim>\<open>tar\<close> can unpack the archive.\<close>

definition nd1_broken_archive :: environment where
  "nd1_broken_archive = nd1_env\<lparr>run_extraction_command := (\<lambda>c. CmdFailed)\<rparr>"

text \<open>The same node with no archive in \<^verbatim>\<open>/techsupport\<close>.\<close>

definition nd1_no_archive :: environment where
  "nd1_no_archive = nd1_env\<lparr>glob := (\<lambda>p. [])\<rparr>"

text \<open>
  The same node when a regular file is in the place of the node directory, so that the
  directory cannot be created; the status and results files lie beside it and can be
  written.
\<close>

definition nd1_readonly :: environment where
  "nd1_readonly =
     nd1_env\<lparr>makedirs := (\<lambda>p. if p = ''/tmp/ndpreupgradecheck/nd1''
                               then Some ''[Errno 17] File exists: /tmp/ndpreupgradecheck/nd1''
                               else None)\<rparr>"


text \<open>
  The same node when the reachability check sets a status and then fails with an
  \<^verbatim>\<open>IndexError\<close> while it parses the node table.
\<close>

definition nd1_faulty_ping :: environment where
  "nd1_faulty_ping =
     nd1_env\<lparr>body := (\<lambda>f. if f = ''check_ping_reachability''
                           then \<lparr>assignments = [SetStatus ping_check WARNING],
                                 ending = Raised ''list index out of range''\<rparr>
                           else \<lparr>assignments = [], ending = Returned ()\<rparr>)\<rparr>"

text \<open>
  The same node when nothing was extracted: the node directory holds no file and none
  of the expected directories, and the searches print nothing. The scripts of the two
  modelled checks are their bodies.
\<close>

definition nd1_empty_tree :: environment where
  "nd1_empty_tree =
     with_modelled_checks
       (nd1_env\<lparr>path_exists := (\<lambda>p. False),
                fs_view := \<lparr>walk = (\<lambda>d. Some []), relpath = relpath_below\<rparr>\<rparr>)"

text \<open>
  A node with two archives, the second one newer, and a node started with an explicit
  archive path that exists.
\<close>

definition nd1_two_archives :: environment where
  "nd1_two_archives =
     nd1_env\<lparr>glob := (\<lambda>p. if p = ''/techsupport/*nd1.tgz''
                           then [''/techsupport/2025-05-28-nd1.tgz'', ''/techsupport/2025-05-29-nd1.tgz'']
                           else []),
             getmtime := (\<lambda>p. if p = ''/techsupport/2025-05-29-nd1.tgz'' then Inr 1748500000
                                else Inr 1748400000)\<rparr>"

definition nd1_explicit :: environment where
  "nd1_explicit =
     nd1_env\<lparr>argv := [''worker_functions.py'', ''select'', ''/data/ts-nd1.tgz''],
             path_exists := (\<lambda>p. p = ''/data/ts-nd1.tgz'')\<rparr>"

text \<open>
  A node on which \<^verbatim>\<open>logs.tgz\<close> is found after the outer extraction, and every
  \<^verbatim>\<open>tar\<close> command on \<^verbatim>\<open>logs.tgz\<close> fails while the outer ones succeed.
\<close>

definition nd1_nested_broken :: environment where
  "nd1_nested_broken =
     nd1_env\<lparr>path_exists := (\<lambda>p. True),
             run_extraction_command :=
               (\<lambda>c. if str_contains ''logs.tgz'' c then CmdFailed else CmdOk),
             run_command_unified :=
               (\<lambda>c. if str_contains ''logs.tgz'' c then ([], ''tar: error'', 2) else ([], [], 0))\<rparr>"

text \<open>The node of the broken archive as \<^verbatim>\<open>run_command_unified\<close> sees it.\<close>

definition nd1_broken_unified :: environment where
  "nd1_broken_unified =
     nd1_env\<lparr>path_exists := (\<lambda>p. True),
             run_command_unified :=
               (\<lambda>c. if str_contains ''tar'' c
                    then ([], ''tar: This does not look like a tar archive'', 2)
                    else ([], [], 0))\<rparr>"

text \<open>The same node when SIGINT arrives inside the reachability check.\<close>

definition nd1_sigint_ping :: environment where
  "nd1_sigint_ping =
     nd1_env\<lparr>body := (\<lambda>f. if f = ''check_ping_reachability''
                           then \<lparr>assignments = [], ending = Interrupted\<rparr>
                           else \<lparr>assignments = [], ending = Returned ()\<rparr>)\<rparr>"

text \<open>
  The same node when SIGINT arrives in the reachability check between the assignment
  of the status \<^verbatim>\<open>FAIL\<close> and the assignment of the details.
\<close>

definition nd1_sigint_status :: environment where
  "nd1_sigint_status =
     nd1_env\<lparr>body := (\<lambda>f. if f = ''check_ping_reachability''
                           then \<lparr>assignments = [SetStatus ping_check FAIL], ending = Interrupted\<rparr>
                           else \<lparr>assignments = [], ending = Returned ()\<rparr>)\<rparr>"

text \<open>
  The same node when the run is complete and SIGINT arrives while
  \<^verbatim>\<open>cleanup_processes\<close> runs \<^verbatim>\<open>pkill\<close>, and when it arrives while it runs \<^verbatim>\<open>ps\<close>.
\<close>

definition nd1_sigint_pkill :: environment where
  "nd1_sigint_pkill = nd1_env\<lparr>cleanup_sigint := SignalSwallowed\<rparr>"


section \<open>Theorems\<close>

subsection \<open>Streaming search\<close>

lemma scan_patterns_take:
  "int (length ms) < max 1 mx \<Longrightarrow>
   scan_patterns n line ps mx ms =
     (take (nat (max 1 mx)) (ms @ line_matches n line ps),
      nat (max 1 mx) \<le> length (ms @ line_matches n line ps))"
proof (induction ps arbitrary: ms)
  case Nil
  then show ?case by (auto simp: line_matches_def)
next
  case (Cons p ps)
  show ?case
  proof (cases "str_contains p line")
    case False
    with Cons show ?thesis by (simp add: line_matches_def)
  next
    case True
    let ?m = "\<lparr>line_number = n + 1, content = line, pattern = p\<rparr>"
    show ?thesis
    proof (cases "int (length (ms @ [?m])) \<ge> mx")
      case stop: True
      with Cons.prems have "nat (max 1 mx) = length ms + 1" by auto
      with True stop show ?thesis by (simp add: line_matches_def)
    next
      case go: False
      then have "int (length (ms @ [?m])) < max 1 mx" by auto
      from Cons.IH[OF this] True go show ?thesis by (simp add: line_matches_def)
    qed
  qed
qed

lemma scan_lines_take:
  "int (length ms) < max 1 mx \<Longrightarrow>
   fst (scan_lines n ls ps mx ms) = take (nat (max 1 mx)) (ms @ all_matches n ls ps)"
proof (induction ls arbitrary: n ms)
  case Nil
  then show ?case by auto
next
  case (Cons l ls)
  show ?case
  proof (cases "nat (max 1 mx) \<le> length (ms @ line_matches n (strip l) ps)")
    case True
    with Cons.prems show ?thesis by (simp add: scan_patterns_take)
  next
    case False
    then have "int (length (ms @ line_matches n (strip l) ps)) < max 1 mx" by auto
    from Cons.IH[OF this] False Cons.prems show ?thesis
      by (simp add: scan_patterns_take)
  qed
qed

lemma process_large_file_streaming_take:
  "fs filepath = Readable ls err \<Longrightarrow>
   process_large_file_streaming fs filepath pats mx = take (nat (max 1 mx)) (all_matches 0 ls pats)"
  using scan_lines_take[of "[]" mx 0 ls pats]
  by (simp add: process_large_file_streaming_def)

text \<open>
  C10, as stated, fails twice. With the limit \<open>0\<close> the first match is appended before
  the limit is compared, so one record comes back; and a read error after a matching
  line leaves that line's matches in the result, which is then not empty.
\<close>

theorem process_large_file_streaming_counterexample:
  "\<not> int (length (process_large_file_streaming
         (\<lambda>p. Readable [''tar: error''] None) ''/tmp/x.log'' [''error''] 0)) \<le> 0
   \<and> process_large_file_streaming
         (\<lambda>p. Readable [''tar: error''] (Some ''read failed'')) ''/tmp/x.log'' [''error''] 100 \<noteq> []"
  by (simp add: process_large_file_streaming_def strip_def is_space_def)

text \<open>
  C10, amended. The function is total (it never raises). For a limit of at least one
  it returns at most \<open>max_matches\<close> records, namely the first \<open>max_matches\<close> matches
  of the lines it could read, so it stops as soon as the limit is reached; for a limit
  below one it returns at most one record. It returns the empty list when the file
  does not exist or cannot be opened; when reading fails after some lines it returns
  the matches found in the lines read before the failure.
\<close>

theorem process_large_file_streaming_amended:
  "(1 \<le> max_matches \<longrightarrow>
      int (length (process_large_file_streaming fs filepath pats max_matches)) \<le> max_matches)
   \<and> length (process_large_file_streaming fs filepath pats max_matches) \<le> nat (max 1 max_matches)
   \<and> (fs filepath = Missing \<longrightarrow> process_large_file_streaming fs filepath pats max_matches = [])
   \<and> (\<forall>e. fs filepath = Unreadable e \<longrightarrow>
         process_large_file_streaming fs filepath pats max_matches = [])
   \<and> (\<forall>ls err. fs filepath = Readable ls err \<longrightarrow>
         process_large_file_streaming fs filepath pats max_matches =
           take (nat (max 1 max_matches)) (all_matches 0 ls pats))"
proof -
  have len: "length (process_large_file_streaming fs filepath pats max_matches)
               \<le> nat (max 1 max_matches)"
  proof (cases "fs filepath")
    case (Readable ls err)
    then show ?thesis by (simp add: process_large_file_streaming_take)
  qed (simp_all add: process_large_file_streaming_def)
  then have "1 \<le> max_matches \<longrightarrow>
      int (length (process_large_file_streaming fs filepath pats max_matches)) \<le> max_matches"
    by auto
  with len show ?thesis
    by (auto simp: process_large_file_streaming_take)
       (simp_all add: process_large_file_streaming_def)
qed

theorem process_large_file_streaming_amended_witness:
  "(1::int) \<le> 2
   \<and> int (length (process_large_file_streaming
        (\<lambda>p. if p = ''/tmp/x.log''
              then Readable [''a error'' @ [CHR 0x0A], [CHR 0x1F, CHR 0x0A],
                             [CHR 0xA0] @ ''error c'' @ [CHR 0x85, CHR 0x0A], ''error d''] None
              else Missing)
        ''/tmp/x.log'' [''error'', [CHR 0x1F]] 2)) \<le> 2
   \<and> process_large_file_streaming
        (\<lambda>p. if p = ''/tmp/x.log''
              then Readable [''a error'' @ [CHR 0x0A], [CHR 0x1F, CHR 0x0A],
                             [CHR 0xA0] @ ''error c'' @ [CHR 0x85, CHR 0x0A], ''error d''] None
              else Missing)
        ''/tmp/x.log'' [''error'', [CHR 0x1F]] 2
      = [\<lparr>line_number = 1, content = ''a error'', pattern = ''error''\<rparr>,
         \<lparr>line_number = 3, content = ''error c'', pattern = ''error''\<rparr>]
   \<and> process_large_file_streaming
        (\<lambda>p. if p = ''/tmp/x.log''
              then Readable [''a error'' @ [CHR 0x0A], [CHR 0x1F, CHR 0x0A],
                             [CHR 0xA0] @ ''error c'' @ [CHR 0x85, CHR 0x0A], ''error d''] None
              else Missing)
        ''/tmp/none'' [''error'', [CHR 0x1F]] 2 = []"
  using process_large_file_streaming_amended
    [of 2 "\<lambda>p. if p = ''/tmp/x.log''
              then Readable [''a error'' @ [CHR 0x0A], [CHR 0x1F, CHR 0x0A],
                             [CHR 0xA0] @ ''error c'' @ [CHR 0x85, CHR 0x0A], ''error d''] None
              else Missing" "''/tmp/x.log''" "[''error'', [CHR 0x1F]]"]
    process_large_file_streaming_amended
    [of 2 "\<lambda>p. if p = ''/tmp/x.log''
              then Readable [''a error'' @ [CHR 0x0A], [CHR 0x1F, CHR 0x0A],
                             [CHR 0xA0] @ ''error c'' @ [CHR 0x85, CHR 0x0A], ''error d''] None
              else Missing" "''/tmp/none''" "[''error'', [CHR 0x1F]]"]
  by (simp add: line_matches_def strip_def is_space_def)

subsection \<open>The file cache\<close>

lemma base_dir_cache_file [simp]: "base_dir (cache_file f p r c) = base_dir c"
  by (simp add: cache_file_def)

lemma base_dir_cache_entries [simp]: "base_dir (cache_entries es c) = base_dir c"
  unfolding cache_entries_def by (induction es arbitrary: c) auto

lemma inner_fold_entries:
  "fold (scan_file os root) files c
   = cache_entries (map (\<lambda>file. (file, path_join root file, relpath os (path_join root file) (base_dir c))) files) c"
  unfolding cache_entries_def
  by (induction files arbitrary: c) (auto simp: scan_file_def Let_def)

lemma cache_entries_append: "cache_entries (es @ fs) c = cache_entries fs (cache_entries es c)"
  by (simp add: cache_entries_def)

lemma outer_fold_entries:
  "fold (\<lambda>(root, files) c. fold (scan_file os root) files c) w c
   = cache_entries (walk_entries os (base_dir c) w) c"
proof (induction w arbitrary: c)
  case Nil
  show ?case by (simp add: walk_entries_def cache_entries_def)
next
  case (Cons a w)
  obtain root files where a: "a = (root, files)" by (cases a)
  have "fold (\<lambda>(root, files) c. fold (scan_file os root) files c) (a # w) c
        = fold (\<lambda>(root, files) c. fold (scan_file os root) files c) w (fold (scan_file os root) files c)"
    by (simp add: a)
  also have "\<dots> = cache_entries (walk_entries os (base_dir c) w)
                    (cache_entries (map (\<lambda>file. (file, path_join root file,
                        relpath os (path_join root file) (base_dir c))) files) c)"
    by (simp only: Cons.IH) (simp only: inner_fold_entries base_dir_cache_entries)
  also have "\<dots> = cache_entries (walk_entries os (base_dir c) (a # w)) c"
    by (simp add: walk_entries_def cache_entries_append a)
  finally show ?case .
qed

lemma scan_once_entries:
  "scan_once os c =
     (case walk os (base_dir c) of None \<Rightarrow> c
      | Some w \<Rightarrow> cache_entries (walk_entries os (base_dir c) w) c)"
  by (simp add: scan_once_def outer_fold_entries split: option.splits)

lemma refresh_is_init: "refresh os c = FileCache_init os (base_dir c)"
proof -
  have "c\<lparr>file_cache := [], path_cache := []\<rparr> = \<lparr>base_dir = base_dir c, file_cache = [], path_cache = []\<rparr>"
    by simp
  then show ?thesis by (simp add: refresh_def FileCache_init_def del: FileCache.simps)
qed

lemma map_of_update_alist:
  "map_of (AList.update k v al) = (map_of al)(k \<mapsto> v)"
  by (rule AList.update_conv')

lemma file_cache_cache_file:
  "map_of (file_cache (cache_file f p r c)) n =
     (if n = f then Some ((case map_of (file_cache c) f of None \<Rightarrow> [] | Some ps \<Rightarrow> ps) @ [p])
      else map_of (file_cache c) n)"
  by (simp add: cache_file_def AList.update_conv')

lemma file_cache_cache_entries:
  "map_of (file_cache (cache_entries es c)) n =
     (if recorded es n = [] then map_of (file_cache c) n
      else Some ((case map_of (file_cache c) n of None \<Rightarrow> [] | Some ps \<Rightarrow> ps) @ recorded es n))"
proof (induction es arbitrary: c)
  case Nil
  show ?case by (simp add: cache_entries_def recorded_def)
next
  case (Cons e es)
  obtain f p r where e: "e = (f, p, r)" by (cases e)
  have step: "cache_entries (e # es) c = cache_entries es (cache_file f p r c)"
    by (simp add: cache_entries_def e)
  show ?case
    unfolding step Cons.IH
    by (auto simp: file_cache_cache_file recorded_def e split: option.splits)
qed

lemma fold_name_matches:
  "fold (\<lambda>(filename, paths) matches. if P filename then matches @ paths else matches) fc acc
   = acc @ concat (map snd (filter (\<lambda>(filename, paths). P filename) fc))"
  by (induction fc arbitrary: acc) auto

lemma fold_path_matches:
  "fold (\<lambda>(rel_path, full_path) matches.
           if P rel_path then (if full_path \<notin> set matches then matches @ [full_path] else matches)
           else matches) pc acc
   = add_new acc (map snd (filter (\<lambda>(rel_path, full_path). P rel_path) pc))"
  unfolding add_new_def
  by (induction pc arbitrary: acc) auto

lemma find_files_eq:
  "find_files fnmatch c pat =
     (case map_of (file_cache c) pat of
        Some paths \<Rightarrow> paths
      | None \<Rightarrow> add_new (name_matches fnmatch c pat) (path_matches fnmatch c pat))"
  by (simp add: find_files_def fold_name_matches fold_path_matches name_matches_def path_matches_def
      split: option.splits)

lemma distinct_add_new: "distinct acc \<Longrightarrow> distinct (add_new acc xs)"
  unfolding add_new_def by (induction xs arbitrary: acc) auto

lemma set_add_new: "set (add_new acc xs) = set acc \<union> set xs"
  unfolding add_new_def by (induction xs arbitrary: acc) auto

lemma add_new_append: "add_new acc (xs @ ys) = add_new (add_new acc xs) ys"
  by (simp add: add_new_def)

lemma add_new_distinct_self: "distinct xs \<Longrightarrow> set acc \<inter> set xs = {} \<Longrightarrow> add_new acc xs = acc @ xs"
  unfolding add_new_def by (induction xs arbitrary: acc) auto

lemma add_new_Nil_distinct: "distinct xs \<Longrightarrow> add_new [] xs = xs"
  using add_new_distinct_self[of xs "[]"] by simp

lemma update_append_paths:
  "set (concat (map snd (AList.update f ((case map_of fc f of None \<Rightarrow> [] | Some ps \<Rightarrow> ps) @ [p]) fc)))
     = insert p (set (concat (map snd fc)))"
  by (induction fc) (auto split: option.splits)

lemma update_append_distinct:
  "distinct (concat (map snd fc)) \<Longrightarrow> p \<notin> set (concat (map snd fc)) \<Longrightarrow>
   distinct (concat (map snd (AList.update f ((case map_of fc f of None \<Rightarrow> [] | Some ps \<Rightarrow> ps) @ [p]) fc)))"
proof (induction fc)
  case Nil
  then show ?case by simp
next
  case (Cons a fc)
  obtain k v where a: "a = (k, v)" by (cases a)
  show ?case
  proof (cases "k = f")
    case True
    with Cons.prems show ?thesis by (auto simp: a)
  next
    case False
    have "set (concat (map snd (AList.update f ((case map_of fc f of None \<Rightarrow> [] | Some ps \<Rightarrow> ps) @ [p]) fc)))
          = insert p (set (concat (map snd fc)))"
      by (rule update_append_paths)
    with False Cons show ?thesis by (auto simp: a)
  qed
qed

lemma cached_paths_cache_entries:
  "distinct (cached_paths c) \<Longrightarrow> distinct (map (fst \<circ> snd) es) \<Longrightarrow>
   set (cached_paths c) \<inter> set (map (fst \<circ> snd) es) = {} \<Longrightarrow>
   distinct (cached_paths (cache_entries es c))
   \<and> set (cached_paths (cache_entries es c)) = set (cached_paths c) \<union> set (map (fst \<circ> snd) es)"
proof (induction es arbitrary: c)
  case Nil
  then show ?case by (simp add: cache_entries_def)
next
  case (Cons e es)
  obtain f p r where e: "e = (f, p, r)" by (cases e)
  have step: "cache_entries (e # es) c = cache_entries es (cache_file f p r c)"
    by (simp add: cache_entries_def e)
  have d: "distinct (cached_paths (cache_file f p r c))"
    using Cons.prems update_append_distinct[of "file_cache c" p f]
    by (simp add: cached_paths_def cache_file_def e)
  have s: "set (cached_paths (cache_file f p r c)) = insert p (set (cached_paths c))"
    using update_append_paths[of f "file_cache c" p]
    by (simp add: cached_paths_def cache_file_def)
  have "distinct (cached_paths (cache_entries es (cache_file f p r c)))
   \<and> set (cached_paths (cache_entries es (cache_file f p r c)))
       = set (cached_paths (cache_file f p r c)) \<union> set (map (fst \<circ> snd) es)"
    using Cons.prems d s by (intro Cons.IH) (auto simp: e)
  then show ?case unfolding step using s by (auto simp: e)
qed

lemma distinct_concat_filter:
  "distinct (concat xs) \<Longrightarrow> distinct (concat (filter P xs))"
  by (induction xs) auto

lemma distinct_concat_member:
  "distinct (concat xs) \<Longrightarrow> ys \<in> set xs \<Longrightarrow> distinct ys"
  by (induction xs) auto

lemma distinct_concat_map_filter:
  "distinct (concat (map snd fc)) \<Longrightarrow> distinct (concat (map snd (filter P fc)))"
  by (induction fc) auto

lemma distinct_name_matches:
  "distinct (cached_paths c) \<Longrightarrow> distinct (name_matches fnmatch c pat)"
  unfolding name_matches_def cached_paths_def by (rule distinct_concat_map_filter)

lemma distinct_cached_lookup:
  "distinct (cached_paths c) \<Longrightarrow> map_of (file_cache c) pat = Some paths \<Longrightarrow> distinct paths"
  unfolding cached_paths_def
  by (rule distinct_concat_member[of "map snd (file_cache c)"]) (auto dest: map_of_SomeD intro: rev_image_eqI)

lemma distinct_find_files:
  "distinct (cached_paths c) \<Longrightarrow> distinct (find_files fnmatch c pat)"
proof (cases "map_of (file_cache c) pat")
  case None
  assume "distinct (cached_paths c)"
  then have "distinct (name_matches fnmatch c pat)" by (rule distinct_name_matches)
  then show ?thesis by (simp add: find_files_eq None distinct_add_new)
next
  case (Some paths)
  assume "distinct (cached_paths c)"
  then have "distinct paths" using Some by (rule distinct_cached_lookup)
  then show ?thesis by (simp add: find_files_eq Some)
qed

lemma init_entries:
  "FileCache_init os dir =
     (case walk os dir of
        None \<Rightarrow> \<lparr>base_dir = dir, file_cache = [], path_cache = []\<rparr>
      | Some w \<Rightarrow> cache_entries (walk_entries os dir w) \<lparr>base_dir = dir, file_cache = [], path_cache = []\<rparr>)"
  by (simp add: FileCache_init_def scan_once_entries split: option.splits)

lemma cached_paths_empty [simp]:
  "cached_paths \<lparr>base_dir = dir, file_cache = [], path_cache = []\<rparr> = []"
  by (simp add: cached_paths_def)

lemma distinct_cached_init:
  assumes "\<forall>w. walk os dir = Some w \<longrightarrow> distinct (map (fst \<circ> snd) (walk_entries os dir w))"
  shows "distinct (cached_paths (FileCache_init os dir))"
proof (cases "walk os dir")
  case None
  then show ?thesis by (simp add: init_entries)
next
  case (Some w)
  from assms Some have d: "distinct (map (fst \<circ> snd) (walk_entries os dir w))" by blast
  have "distinct (cached_paths (cache_entries (walk_entries os dir w)
          \<lparr>base_dir = dir, file_cache = [], path_cache = []\<rparr>))"
    by (rule cached_paths_cache_entries[THEN conjunct1]) (simp_all add: d)
  moreover have "FileCache_init os dir = cache_entries (walk_entries os dir w)
          \<lparr>base_dir = dir, file_cache = [], path_cache = []\<rparr>"
    by (simp add: init_entries Some)
  ultimately show ?thesis by (simp only:)
qed

lemma init_lookup:
  "walk os dir = Some w \<Longrightarrow>
   map_of (file_cache (FileCache_init os dir)) n =
     (if recorded (walk_entries os dir w) n = [] then None
      else Some (recorded (walk_entries os dir w) n))"
  by (simp add: init_entries file_cache_cache_entries)

lemma find_files_missing_dir:
  "walk os dir = None \<Longrightarrow> find_files fnmatch (FileCache_init os dir) pat = []"
  by (simp add: init_entries find_files_def)

lemma init_scanned:
  "FileCache_init os dir =
     cache_entries (scanned_entries os dir) \<lparr>base_dir = dir, file_cache = [], path_cache = []\<rparr>"
  by (simp add: init_entries scanned_entries_def cache_entries_def split: option.splits)

lemma base_dir_init [simp]: "base_dir (FileCache_init os dir) = dir"
  by (simp add: init_scanned)

lemma distinct_cached_scanned:
  "distinct (map (fst \<circ> snd) (scanned_entries os dir)) \<Longrightarrow>
   distinct (cached_paths (FileCache_init os dir))"
  by (rule distinct_cached_init) (auto simp: scanned_entries_def)

lemma init_lookup_scanned:
  "map_of (file_cache (FileCache_init os dir)) n =
     (if recorded (scanned_entries os dir) n = [] then None
      else Some (recorded (scanned_entries os dir) n))"
  by (simp add: init_scanned file_cache_cache_entries)

lemma refresh_init [simp]: "refresh os (FileCache_init os dir) = FileCache_init os dir"
  by (simp add: refresh_is_init)

lemma demo0: "FileCache_init demo_os ''/b'' = 
  \<lparr>base_dir = ''/b'',
    file_cache =
      [(''log1'', [''/b/log1'']), (''x'', [''/b/x'', ''/b/logs/x'']),
       (''foo.txt'', [''/b/logs/foo.txt''])],
    path_cache = [(''log1'', ''/b/log1''), (''x'', ''/b/x''), (''logs/foo.txt'', ''/b/logs/foo.txt''), (''logs/x'', ''/b/logs/x'')]\<rparr>"
  by (simp add: FileCache_init_def scan_once_def scan_file_def cache_file_def
      demo_os_def path_join_def relpath_below_def Let_def)

lemma demo_entries: "scanned_entries demo_os ''/b'' =
   [(''log1'', ''/b/log1'', ''log1''), (''x'', ''/b/x'', ''x''),
    (''foo.txt'', ''/b/logs/foo.txt'', ''logs/foo.txt''), (''x'', ''/b/logs/x'', ''logs/x'')]"
  by (simp add: scanned_entries_def walk_entries_def demo_os_def path_join_def relpath_below_def)

text \<open>
  C6, read as a chain of fallbacks, fails. In the tree of \<^const>\<open>demo_os\<close> the
  pattern \<^verbatim>\<open>log*\<close> is no file name; it matches the name \<^verbatim>\<open>log1\<close>, and the
  method still goes on to the relative paths and adds the two files under
  \<^verbatim>\<open>logs/\<close>, which the chain would not consult.
\<close>

theorem find_files_counterexample:
  "find_files fnmatch_glob (FileCache_init demo_os ''/b'') ''log*''
     = [''/b/log1'', ''/b/logs/foo.txt'', ''/b/logs/x'']
   \<and> find_files_spec fnmatch_glob (FileCache_init demo_os ''/b'') ''log*'' = [''/b/log1'']
   \<and> find_files fnmatch_glob (FileCache_init demo_os ''/b'') ''log*''
       \<noteq> find_files_spec fnmatch_glob (FileCache_init demo_os ''/b'') ''log*''"
  by (simp add: demo0 find_files_def find_files_spec_def name_matches_def path_matches_def
      add_new_def fnmatch_glob_def)

text \<open>
  C6, amended. For a cache built from a directory tree (whose full paths are pairwise
  different), \<^const>\<open>find_files\<close> returns the list recorded under the pattern when
  the pattern is a known file name; otherwise it returns the wildcard matches among the
  known names followed by the wildcard or substring matches among the relative paths
  (both stages always run, the second adds only paths not yet in the list), which is
  the concatenation of the two with duplicates dropped and first occurrences kept. The
  result has no duplicates, and it is the empty list when nothing matches. The function
  is total: no lookup raises.
\<close>

theorem find_files_amended:
  assumes "distinct (map (fst \<circ> snd) (scanned_entries os dir))"
  shows "(recorded (scanned_entries os dir) pat \<noteq> [] \<longrightarrow>
            find_files fnmatch (FileCache_init os dir) pat
              = recorded (scanned_entries os dir) pat)
       \<and> (recorded (scanned_entries os dir) pat = [] \<longrightarrow>
            find_files fnmatch (FileCache_init os dir) pat
              = add_new [] (name_matches fnmatch (FileCache_init os dir) pat
                            @ path_matches fnmatch (FileCache_init os dir) pat))
       \<and> distinct (find_files fnmatch (FileCache_init os dir) pat)
       \<and> (recorded (scanned_entries os dir) pat = []
            \<and> name_matches fnmatch (FileCache_init os dir) pat = []
            \<and> path_matches fnmatch (FileCache_init os dir) pat = [] \<longrightarrow>
            find_files fnmatch (FileCache_init os dir) pat = [])"
proof -
  let ?c = "FileCache_init os dir"
  have d: "distinct (cached_paths ?c)"
    using assms by (rule distinct_cached_scanned)
  have dn: "distinct (name_matches fnmatch ?c pat)"
    using d by (rule distinct_name_matches)
  have "add_new [] (name_matches fnmatch ?c pat @ path_matches fnmatch ?c pat)
        = add_new (name_matches fnmatch ?c pat) (path_matches fnmatch ?c pat)"
    by (simp add: add_new_append add_new_Nil_distinct dn)
  moreover have "distinct (find_files fnmatch ?c pat)"
    using d by (rule distinct_find_files)
  ultimately show ?thesis
    by (simp add: find_files_eq init_lookup_scanned add_new_def)
qed

theorem find_files_amended_witness:
  "distinct (map (fst \<circ> snd) (scanned_entries demo_os ''/b''))
   \<and> find_files fnmatch_glob (FileCache_init demo_os ''/b'') ''x'' = [''/b/x'', ''/b/logs/x'']
   \<and> find_files fnmatch_glob (FileCache_init demo_os ''/b'') ''log*''
        = [''/b/log1'', ''/b/logs/foo.txt'', ''/b/logs/x'']
   \<and> distinct (find_files fnmatch_glob (FileCache_init demo_os ''/b'') ''log*'')
   \<and> find_files fnmatch_glob (FileCache_init demo_os ''/b'') ''absent'' = []"
proof -
  have h: "distinct (map (fst \<circ> snd) (scanned_entries demo_os ''/b''))"
    by (simp add: demo_entries)
  show ?thesis
    using h find_files_amended[OF h, of "''x''" fnmatch_glob]
      find_files_amended[OF h, of "''log*''" fnmatch_glob]
      find_files_amended[OF h, of "''absent''" fnmatch_glob]
    by (simp add: demo_entries recorded_def demo0 name_matches_def path_matches_def add_new_def
        fnmatch_glob_def)
qed

lemma base_dir_cache_step [simp]:
  "base_dir (fst (cache_step fnmatch os op st)) = base_dir (fst st)"
proof (cases st)
  case (Pair c vs)
  then show ?thesis
    by (cases op) (simp_all add: refresh_is_init split: found.splits)
qed

lemma base_dir_cache_steps [simp]:
  "base_dir (fst (fold (cache_step fnmatch os) ops st)) = base_dir (fst st)"
  by (induction ops arbitrary: st) simp_all







subsection \<open>Projections of the state updates\<close>

lemma update_status_fields [simp]:
  "results (update_status env s operation p w) = results w"
  "hb (update_status env s operation p w) = \<lparr>hb_status = s, current_operation = operation, progress = p\<rparr>"
  "status_file (update_status env s operation p w) =
     (if status_writable env
      then status_file w @ [\<lparr>hb_status = s, current_operation = operation, progress = p\<rparr>]
      else status_file w)"
  "results_file (update_status env s operation p w) = results_file w"
  "cmd_log (update_status env s operation p w) = cmd_log w"
  by (simp_all add: update_status_def Let_def)

lemma save_results_fields [simp]:
  "results (save_results env w) = results w"
  "hb (save_results env w) = hb w"
  "status_file (save_results env w) = status_file w"
  "results_file (save_results env w) = (if results_writable env then Some (results w) else results_file w)"
  "cmd_log (save_results env w) = cmd_log w"
  by (simp_all add: save_results_def)

lemma write_results_fields [simp]:
  "results (write_results ws w) = apply_assignments ws (results w)"
  "hb (write_results ws w) = hb w"
  "status_file (write_results ws w) = status_file w"
  "results_file (write_results ws w) = results_file w"
  "cmd_log (write_results ws w) = cmd_log w"
  by (simp_all add: write_results_def)

lemma log_cmd_fields [simp]:
  "results (log_cmd c w) = results w"
  "hb (log_cmd c w) = hb w"
  "status_file (log_cmd c w) = status_file w"
  "results_file (log_cmd c w) = results_file w"
  "cmd_log (log_cmd c w) = cmd_log w @ [c]"
  by (simp_all add: log_cmd_def)

lemma signal_handler_fields [simp]:
  "results (signal_handler env w) = results w"
  "hb (signal_handler env w)
     = \<lparr>hb_status = ''interrupted'', current_operation = ''Script interrupted by user'', progress = 0\<rparr>"
  "results_file (signal_handler env w) = (if results_writable env then Some (results w) else results_file w)"
  by (simp_all add: signal_handler_def)

lemma apply_assignments_Nil [simp]: "apply_assignments [] cs = cs"
  by (simp add: apply_assignments_def)

lemma apply_assignments_Cons [simp]:
  "apply_assignments (a # ws) cs = apply_assignments ws (apply_assignment a cs)"
  by (simp add: apply_assignments_def)

lemma apply_assignments_append:
  "apply_assignments (ws @ vs) cs = apply_assignments vs (apply_assignments ws cs)"
  by (simp add: apply_assignments_def)



subsection \<open>One check\<close>

lemma check_function_eq:
  "check_function env row w =
     (ending (body env (fn_name row)),
      write_results (assignments (body env (fn_name row)))
        (update_status env ''running'' (operation_label row) (progress_value row) w))"
  by (simp add: check_function_def Let_def)

lemma call_check_cases:
  "call_check env row w =
     (case decorated row of
        None \<Rightarrow> check_function env row w
      | Some name \<Rightarrow> robust_check name (check_function env row) w)"
  by (simp add: call_check_def split: option.splits)

lemma run_check_status_file:
  "status_file (snd (run_check env row w)) =
     (if status_writable env then status_file w @ [row_heartbeat row] else status_file w)"
  by (cases "ending (body env (fn_name row))")
     (auto simp: run_check_def call_check_cases robust_check_def check_function_eq row_heartbeat_def
           split: option.splits)

lemma run_check_not_raised: "fst (run_check env row w) \<noteq> Raised e"
  by (cases "ending (body env (fn_name row))")
     (auto simp: run_check_def call_check_cases robust_check_def check_function_eq
           split: option.splits)

lemma run_check_interrupted_iff:
  "fst (run_check env row w) = Interrupted \<longleftrightarrow> ending (body env (fn_name row)) = Interrupted"
  by (cases "ending (body env (fn_name row))")
     (auto simp: run_check_def call_check_cases robust_check_def check_function_eq
           split: option.splits)

lemma run_check_returned:
  "ending (body env (fn_name row)) = Returned u \<Longrightarrow>
   run_check env row w =
     (Returned u, write_results (assignments (body env (fn_name row)))
        (update_status env ''running'' (operation_label row) (progress_value row) w))"
  by (auto simp: run_check_def call_check_cases robust_check_def check_function_eq
           split: option.splits)

lemma run_check_raised_decorated:
  "ending (body env (fn_name row)) = Raised e \<Longrightarrow> decorated row = Some name \<Longrightarrow>
   run_check env row w =
     (Returned (),
      write_results [SetStatus name FAIL, SetDetails name [''Check failed: '' @ e]]
        (write_results (assignments (body env (fn_name row)))
          (update_status env ''running'' (operation_label row) (progress_value row) w)))"
  by (auto simp: run_check_def call_check_cases robust_check_def check_function_eq)

lemma run_check_raised_plain:
  "ending (body env (fn_name row)) = Raised e \<Longrightarrow> decorated row = None \<Longrightarrow>
   run_check env row w =
     (Returned (),
      write_results [SetStatus (handler_entry row) (handler_status row),
                     SetDetails (handler_entry row) (handler_details row e)]
        (write_results (assignments (body env (fn_name row)))
          (update_status env ''running'' (operation_label row) (progress_value row) w)))"
  by (auto simp: run_check_def call_check_cases robust_check_def check_function_eq)

lemma main_checks_boundary:
  "row \<in> set main_checks \<Longrightarrow>
     (decorated row = Some (handler_entry row))
     \<or> (decorated row = None \<and> handler_status row = FAIL \<and> handler_details row = check_failed)"
  by (auto simp: main_checks_def)

lemma run_check_fault:
  assumes "row \<in> set main_checks" and "ending (body env (fn_name row)) = Raised e"
  shows "run_check env row w =
     (Returned (),
      write_results [SetStatus (handler_entry row) FAIL,
                     SetDetails (handler_entry row) [''Check failed: '' @ e]]
        (write_results (assignments (body env (fn_name row)))
          (update_status env ''running'' (operation_label row) (progress_value row) w)))"
  using main_checks_boundary[OF assms(1)] assms(2)
  by (auto simp: run_check_raised_decorated run_check_raised_plain check_failed_def)

subsection \<open>The sequence of checks\<close>

lemma run_checks_interrupted_iff:
  "fst (run_checks env rows w) = Interrupted
     \<longleftrightarrow> (\<exists>row \<in> set rows. ending (body env (fn_name row)) = Interrupted)"
proof (induction rows arbitrary: w)
  case Nil
  show ?case by simp
next
  case (Cons row rows)
  obtain r w' where rc: "run_check env row w = (r, w')" by (cases "run_check env row w")
  have i: "r = Interrupted \<longleftrightarrow> ending (body env (fn_name row)) = Interrupted"
    using run_check_interrupted_iff[of env row w] rc by simp
  show ?case
    using Cons.IH[of w'] i rc by (cases r) auto
qed

lemma run_checks_not_raised: "fst (run_checks env rows w) \<noteq> Raised e"
proof (induction rows arbitrary: w)
  case Nil
  show ?case by simp
next
  case (Cons row rows)
  obtain r w' where rc: "run_check env row w = (r, w')" by (cases "run_check env row w")
  show ?case using Cons.IH[of w'] rc by (cases r) auto
qed

lemma run_checks_status_file:
  "status_writable env \<Longrightarrow> fst (run_checks env rows w) \<noteq> Interrupted \<Longrightarrow>
   status_file (snd (run_checks env rows w)) = status_file w @ map row_heartbeat rows"
proof (induction rows arbitrary: w)
  case Nil
  show ?case by simp
next
  case (Cons row rows)
  obtain r w' where rc: "run_check env row w = (r, w')" by (cases "run_check env row w")
  have sf: "status_file w' = status_file w @ [row_heartbeat row]"
    using run_check_status_file[of env row w] rc Cons.prems(1) by simp
  show ?case
  proof (cases r)
    case Interrupted
    with rc Cons.prems show ?thesis by simp
  next
    case (Returned u)
    with rc Cons.prems have "fst (run_checks env rows w') \<noteq> Interrupted" by simp
    from Cons.IH[OF Cons.prems(1) this] rc Returned sf show ?thesis by simp
  next
    case (Raised e)
    with rc Cons.prems have "fst (run_checks env rows w') \<noteq> Interrupted" by simp
    from Cons.IH[OF Cons.prems(1) this] rc Raised sf show ?thesis by simp
  qed
qed

lemma main_checks_progress:
  "map progress (map row_heartbeat main_checks)
     = [93, 92, 92, 94, 96, 98, 98, 95, 95, 95, 97, 97, 98]"
  by (simp add: main_checks_def row_heartbeat_def)

subsection \<open>The paths through \<^verbatim>\<open>main\<close>\<close>

lemma extract_failed_fields [simp]:
  "results (extract_failed env d operation p w)
     = apply_assignments [SetStatus techsupport FAIL, AppendDetail techsupport d] (results w)"
  "cmd_log (extract_failed env d operation p w) = cmd_log w"
  "results_file (extract_failed env d operation p w) = results_file w"
  by (simp_all add: extract_failed_def)

lemma verify_extraction_not_raised: "fst (verify_extraction env d w) = Returned ()"
  by (simp add: verify_extraction_def Let_def)

lemma extract_nested_logs_not_raised: "fst (extract_nested_logs env d w) \<noteq> Raised e"
  by (simp add: extract_nested_logs_def Let_def verify_extraction_not_raised split: cmd_result.splits)

lemma extract_techsupport_not_raised: "fst (extract_techsupport env d f w) \<noteq> Raised e"
  by (simp add: extract_techsupport_def Let_def extract_nested_logs_not_raised
      split: cmd_result.splits sum.splits)

lemma nested_interrupted_iff:
  "fst (extract_nested_logs env d w) = Interrupted \<longleftrightarrow> nested_interrupted env d"
  by (simp add: extract_nested_logs_def nested_interrupted_def Let_def
      verify_extraction_not_raised split: cmd_result.splits)

lemma extract_interrupted_iff:
  "fst (extract_techsupport env (node_dir_of env) (basename f) w) = Interrupted
     \<longleftrightarrow> sigint_in_extraction env f"
proof (cases "path_exists env (dest_path_of env f)")
  case False
  then show ?thesis
    by (simp add: extract_techsupport_def sigint_in_extraction_def dest_path_of_def Let_def)
next
  case True
  show ?thesis
  proof (cases "getsize env (dest_path_of env f)")
    case (Inl e)
    with True show ?thesis
      by (simp add: extract_techsupport_def sigint_in_extraction_def dest_path_of_def Let_def
          size_readable_def)
  next
    case (Inr n)
    show ?thesis
    proof (cases "sigint_in_command env df_tmp_cmd")
      case s: True
      with True Inr show ?thesis
        by (simp add: extract_techsupport_def sigint_in_extraction_def dest_path_of_def Let_def
            size_readable_def)
    next
      case s: False
      show ?thesis
      proof (cases "df_available env")
        case (Inl e)
        with True Inr s show ?thesis
          by (simp add: extract_techsupport_def sigint_in_extraction_def dest_path_of_def Let_def
              size_readable_def df_readable_def)
      next
        case df: (Inr a)
        with True Inr s show ?thesis
          by (simp add: extract_techsupport_def sigint_in_extraction_def dest_path_of_def Let_def
              size_readable_def df_readable_def tar_chain_def nested_interrupted_iff
              split: cmd_result.splits)
      qed
    qed
  qed
qed

lemma select_not_interrupted: "fst (select_techsupport env p w) \<noteq> Interrupted"
  by (simp add: select_techsupport_def Let_def split: sum.splits list.splits)

lemma generate_failed_fst [simp]: "fst (generate_failed env st d h operation w) = Returned None"
  by (simp add: generate_failed_def)

lemma generate_command_failed_fst [simp]:
  "fst (generate_command_failed env output stderr w) = Returned None"
  by (simp add: generate_command_failed_def)

lemma generate_fallback_not_interrupted: "fst (generate_fallback env w) \<noteq> Interrupted"
  by (simp add: generate_fallback_def Let_def split: sum.splits list.splits)

lemma generate_wait_interrupted_iff:
  "fst (generate_wait env w) = Interrupted \<longleftrightarrow> poll_interrupted env"
  by (simp add: generate_wait_def Let_def generate_fallback_not_interrupted split: option.splits)

lemma generate_interrupted_iff:
  "fst (generate_techsupport env v w) = Interrupted \<longleftrightarrow>
     (case collect env (get_techsupport_command env v) of
        CollectInterrupted \<Rightarrow> True
      | CollectRaises e \<Rightarrow> False
      | Collected output stderr returncode \<Rightarrow>
          returncode = 0
          \<and> (str_contains ''Started: TS collection'' output \<or> str_contains ''TS collection'' output)
          \<and> poll_interrupted env)"
  by (simp add: generate_techsupport_def Let_def generate_wait_interrupted_iff
      split: collect_result.splits)

lemma acquire_interrupted_iff:
  "fst (acquire_archive env w) = Interrupted \<longleftrightarrow> sigint_in_acquisition env"
  by (auto simp: acquire_archive_def sigint_in_acquisition_def Let_def generate_interrupted_iff
      select_not_interrupted)

lemma select_outcome: "fst (select_techsupport env p w) = fst (select_techsupport env p w')"
  by (simp add: select_techsupport_def Let_def split: sum.splits list.splits)

lemma generate_fallback_outcome: "fst (generate_fallback env w) = fst (generate_fallback env w')"
  by (simp add: generate_fallback_def Let_def split: sum.splits list.splits)

lemma generate_wait_outcome: "fst (generate_wait env w) = fst (generate_wait env w')"
  using generate_fallback_outcome
  by (simp add: generate_wait_def Let_def split: option.splits)

lemma generate_outcome: "fst (generate_techsupport env v w) = fst (generate_techsupport env v w')"
  using generate_wait_outcome
  by (simp add: generate_techsupport_def Let_def split: collect_result.splits)

lemma acquire_outcome: "fst (acquire_archive env w) = fst (acquire_archive env w')"
  using generate_outcome select_outcome by (simp add: acquire_archive_def Let_def)

lemma top_level_error_fields [simp]:
  "fst (top_level_error env e w) = 1"
  "hb (snd (top_level_error env e w))
     = \<lparr>hb_status = ''error'', current_operation = ''Error: '' @ e, progress = 0\<rparr>"
  "results (snd (top_level_error env e w))
     = mark_unrun (''Check did not run due to script error: '' @ e) (results w)"
  "results_file (snd (top_level_error env e w))
     = (if results_writable env
        then Some (mark_unrun (''Check did not run due to script error: '' @ e) (results w))
        else results_file w)"
  by (simp_all add: top_level_error_def)

lemma interrupted_fields [simp]:
  "fst (interrupted env w) = 130"
  "hb (snd (interrupted env w))
     = \<lparr>hb_status = ''interrupted'', current_operation = ''Script interrupted by user'',
        progress = 0\<rparr>"
  "results (snd (interrupted env w)) = results w"
  "results_file (snd (interrupted env w))
     = (if results_writable env then Some (results w) else results_file w)"
  by (simp_all add: interrupted_def)

lemma no_archive_fields [simp]:
  "fst (no_archive env w) = 1"
  "hb (snd (no_archive env w))
     = \<lparr>hb_status = ''error'', current_operation = ''Failed to obtain tech support file'',
        progress = 0\<rparr>"
  "results (snd (no_archive env w))
     = apply_assignments [SetStatus techsupport FAIL,
          SetDetails techsupport [''Failed to obtain tech support file'']] (results w)"
  "results_file (snd (no_archive env w))
     = (if results_writable env
        then Some (apply_assignments [SetStatus techsupport FAIL,
                     SetDetails techsupport [''Failed to obtain tech support file'']] (results w))
        else results_file w)"
  by (simp_all add: no_archive_def)

lemma complete_fields [simp]:
  "fst (complete env w) = 0"
  "hb (snd (complete env w))
     = \<lparr>hb_status = ''complete'', current_operation = ''All operations completed'',
        progress = 100\<rparr>"
  "results (snd (complete env w)) = results w"
  "results_file (snd (complete env w))
     = (if results_writable env then Some (results w) else results_file w)"
  "status_file (snd (complete env w))
     = (if status_writable env
        then status_file w @ [\<lparr>hb_status = ''complete'',
               current_operation = ''All operations completed'', progress = 100\<rparr>]
        else status_file w)"
  by (simp_all add: complete_def)

lemma sigint_in_checks_iff:
  "sigint_in_checks env \<longleftrightarrow> fst (run_checks env main_checks w) = Interrupted"
  by (simp add: sigint_in_checks_def run_checks_interrupted_iff list_ex_iff)

lemma process_archive_cases:
  assumes "makedirs env (node_dir_of env) = None"
  shows "(\<exists>w'. process_archive env f w = interrupted env w'
            \<and> (sigint_in_command env (''cp '' @ f @ '' '' @ dest_path_of env f)
               \<or> sigint_in_extraction env f \<or> sigint_in_checks env))
       \<or> (process_archive env f w =
             complete env (snd (run_checks env main_checks
               (snd (extract_techsupport env (node_dir_of env) (basename f)
                  (log_cmd (''cp '' @ f @ '' '' @ dest_path_of env f) w)))))
          \<and> \<not> sigint_in_command env (''cp '' @ f @ '' '' @ dest_path_of env f)
          \<and> \<not> sigint_in_extraction env f \<and> \<not> sigint_in_checks env)"
proof (cases "sigint_in_command env (''cp '' @ f @ '' '' @ dest_path_of env f)")
  case True
  with assms show ?thesis by (auto simp: process_archive_def Let_def dest_path_of_def)
next
  case cp: False
  let ?w1 = "log_cmd (''cp '' @ f @ '' '' @ dest_path_of env f) w"
  obtain r w2 where ex: "extract_techsupport env (node_dir_of env) (basename f) ?w1 = (r, w2)"
    by (cases "extract_techsupport env (node_dir_of env) (basename f) ?w1")
  obtain r' w3 where rc: "run_checks env main_checks w2 = (r', w3)"
    by (cases "run_checks env main_checks w2")
  have nr: "\<And>e. r \<noteq> Raised e"
    using extract_techsupport_not_raised[of env "node_dir_of env" "basename f" ?w1] ex
    by (metis fst_conv)
  have nr': "\<And>e. r' \<noteq> Raised e"
    using run_checks_not_raised[of env main_checks w2] rc by (metis fst_conv)
  have ri: "r = Interrupted \<longleftrightarrow> sigint_in_extraction env f"
    using extract_interrupted_iff[of env f ?w1] ex by simp
  have ri': "r' = Interrupted \<longleftrightarrow> sigint_in_checks env"
    using sigint_in_checks_iff[of env w2] rc by simp
  show ?thesis
  proof (cases r)
    case Interrupted
    with assms cp ex ri show ?thesis by (auto simp: process_archive_def Let_def dest_path_of_def)
  next
    case (Raised e)
    with nr show ?thesis by blast
  next
    case (Returned u)
    show ?thesis
    proof (cases r')
      case Interrupted
      with assms cp ex rc Returned ri' show ?thesis
        by (auto simp: process_archive_def Let_def dest_path_of_def)
    next
      case (Raised e)
      with nr' show ?thesis by blast
    next
      case r2: (Returned u')
      have "process_archive env f w = complete env (snd (run_checks env main_checks w2))"
        using assms cp ex rc Returned r2 by (simp add: process_archive_def Let_def dest_path_of_def)
      moreover have "w2 = snd (extract_techsupport env (node_dir_of env) (basename f) ?w1)"
        using ex by simp
      moreover have "\<not> sigint_in_extraction env f" using ri Returned by simp
      moreover have "\<not> sigint_in_checks env" using ri' r2 by simp
      ultimately show ?thesis using cp by simp
    qed
  qed
qed

text \<open>The four ways in which the \<^verbatim>\<open>try\<close> block of \<^verbatim>\<open>main\<close> ends.\<close>

lemma main_try_cases:
  "(\<exists>e w. main_try env = top_level_error env e w \<and> setup_failed env \<and> \<not> sigint_in_run env)
   \<or> (\<exists>w. main_try env = no_archive env w \<and> setup_failed env \<and> \<not> sigint_in_run env)
   \<or> (\<exists>w. main_try env = interrupted env w \<and> sigint_in_run env)
   \<or> (\<exists>f. acquired env = Some f
          \<and> main_try env =
             complete env (snd (run_checks env main_checks
               (snd (extract_techsupport env (node_dir_of env) (basename f)
                  (log_cmd (''cp '' @ f @ '' '' @ dest_path_of env f)
                     (snd (acquire_archive env start_world)))))))
          \<and> \<not> setup_failed env \<and> \<not> sigint_in_run env \<and> \<not> sigint_in_checks env)"
proof (cases "makedirs env BASE_DIR")
  case (Some e)
  then show ?thesis by (auto simp: main_try_def setup_failed_def sigint_in_run_def)
next
  case None
  show ?thesis
  proof (cases "sigint_in_command env ''df -BM /tmp | tail -1''")
    case True
    with None show ?thesis by (auto simp: main_try_def sigint_in_run_def)
  next
    case df: False
    obtain r w1 where acq: "acquire_archive env start_world = (r, w1)"
      by (cases "acquire_archive env start_world")
    have ai: "sigint_in_acquisition env \<longleftrightarrow> r = Interrupted"
      using acquire_interrupted_iff[of env start_world] acq by simp
    show ?thesis
    proof (cases r)
      case Interrupted
      with None df acq ai show ?thesis by (auto simp: main_try_def sigint_in_run_def)
    next
      case (Raised e)
      with None df acq ai show ?thesis
        by (auto simp: main_try_def setup_failed_def sigint_in_run_def acquired_def)
    next
      case (Returned tech_file)
      show ?thesis
      proof (cases tech_file)
        case tf: None
        with None df acq ai Returned show ?thesis
          by (auto simp: main_try_def setup_failed_def sigint_in_run_def acquired_def)
      next
        case (Some f)
        show ?thesis
        proof (cases "f = []")
          case True
          with None df acq ai Returned Some show ?thesis
            by (auto simp: main_try_def setup_failed_def sigint_in_run_def acquired_def)
        next
          case False
          have m: "main_try env = process_archive env f w1"
            using None df acq Returned Some False by (simp add: main_try_def)
          have aq: "acquired env = Some f"
            using acq Returned Some False by (simp add: acquired_def)
          have w1: "snd (acquire_archive env start_world) = w1" using acq by simp
          show ?thesis
          proof (cases "makedirs env (node_dir_of env)")
            case nd: (Some e)
            have "main_try env = top_level_error env e w1"
              using m nd by (simp add: process_archive_def)
            moreover have "setup_failed env"
              using None acq Returned Some False nd by (simp add: setup_failed_def)
            moreover have "\<not> sigint_in_run env"
              using None df ai Returned aq nd by (simp add: sigint_in_run_def)
            ultimately show ?thesis by blast
          next
            case nd: None
            have sf: "\<not> setup_failed env"
              using None acq Returned Some False nd by (simp add: setup_failed_def)
            have sr: "sigint_in_run env \<longleftrightarrow>
                sigint_in_command env (''cp '' @ f @ '' '' @ dest_path_of env f)
                \<or> sigint_in_extraction env f \<or> sigint_in_checks env"
              using None df ai Returned aq nd by (simp add: sigint_in_run_def)
            show ?thesis
              using process_archive_cases[OF nd, of f w1] sf aq unfolding m sr w1 by blast
          qed
        qed
      qed
    qed
  qed
qed

lemma main_eq:
  "main env =
     (case cleanup_sigint env of
        NoSignal \<Rightarrow> main_try env
      | SignalSwallowed \<Rightarrow> (fst (main_try env), signal_handler env (snd (main_try env)))
      | SignalExits \<Rightarrow> (130, signal_handler env (snd (main_try env))))"
  by (cases "main_try env")
     (simp add: main_def cleanup_processes_def split: cleanup_signal.splits)

lemma main_quiet: "cleanup_sigint env = NoSignal \<Longrightarrow> main env = main_try env"
  by (simp add: main_eq)

lemma main_try_exit:
  "fst (main_try env) \<in> {0, 1, 130}"
  "fst (main_try env) = 130 \<longleftrightarrow> sigint_in_run env"
  "fst (main_try env) = 1 \<longleftrightarrow> setup_failed env \<and> \<not> sigint_in_run env"
  "fst (main_try env) = 0 \<longleftrightarrow> \<not> setup_failed env \<and> \<not> sigint_in_run env"
  using main_try_cases[of env] by auto







lemma main_swallowed:
  assumes "cleanup_sigint env = SignalSwallowed"
  shows "fst (main env) = fst (main_try env)"
    and "hb (snd (main env)) =
       \<lparr>hb_status = ''interrupted'', current_operation = ''Script interrupted by user'',
        progress = 0\<rparr>"
  using assms by (simp_all add: main_eq)

subsection \<open>Runs on the example node\<close>

lemma nd1_env_fields:
  "argv nd1_env = [''worker_functions.py'', ''select'']"
  "node_name nd1_env = ''nd1''"
  "path_exists nd1_env = (\<lambda>p. p = ''/tmp/ndpreupgradecheck/nd1/2025-05-29-nd1.tgz'')"
  "glob nd1_env = (\<lambda>p. if p = ''/techsupport/*nd1.tgz'' then [''/techsupport/2025-05-29-nd1.tgz''] else [])"
  "getmtime nd1_env = (\<lambda>p. Inr 1748500000)"
  "makedirs nd1_env = (\<lambda>p. None)"
  "subdirs nd1_env = (\<lambda>p. [''logs'', ''k8-diag''])"
  "getsize nd1_env = (\<lambda>p. Inr 1000)"
  "run_command nd1_env = (\<lambda>c. [])"
  "sigint_in_command nd1_env = (\<lambda>c. False)"
  "cleanup_sigint nd1_env = NoSignal"
  "run_extraction_command nd1_env = (\<lambda>c. CmdOk)"
  "run_command_unified nd1_env = (\<lambda>c. ([], [], 0))"
  "py_int nd1_env = (\<lambda>s. Inr 0)"
  "status_writable nd1_env = True"
  "results_writable nd1_env = True"
  "body nd1_env = (\<lambda>f. \<lparr>assignments = [], ending = Returned ()\<rparr>)"
  by (simp_all add: nd1_env_def)

lemma quiet_run_checks:
  "\<forall>row \<in> set rows. body env (fn_name row) = \<lparr>assignments = [], ending = Returned ()\<rparr> \<Longrightarrow>
   fst (run_checks env rows w) = Returned () \<and> results (snd (run_checks env rows w)) = results w"
proof (induction rows arbitrary: w)
  case Nil
  show ?case by simp
next
  case (Cons row rows)
  have b: "body env (fn_name row) = \<lparr>assignments = [], ending = Returned ()\<rparr>"
    using Cons.prems by simp
  have rc: "run_check env row w =
     (Returned (), write_results []
        (update_status env ''running'' (operation_label row) (progress_value row) w))"
    using run_check_returned[of env row "()" w] b by simp
  have "\<forall>row \<in> set rows. body env (fn_name row) = \<lparr>assignments = [], ending = Returned ()\<rparr>"
    using Cons.prems by simp
  from Cons.IH[OF this] show ?case by (simp add: rc)
qed

lemma select_only_archive:
  assumes "length (argv env) = 2" and "argv env ! 1 \<noteq> ''generate''"
    and "glob env (techsupport_glob env) = [f]" and "getmtime env f = Inr t"
  shows "acquire_archive env w =
     (Returned (Some f),
      update_status env ''running'' (''Selected tech support file: '' @ basename f) 20
        (update_status env ''running'' ''Selecting tech support file'' 10 w))"
  using assms
  by (simp add: acquire_archive_def select_techsupport_def explicit_usable_def Let_def
      newest_first_def)


lemma nd1_broken_archive_fields:
  "argv nd1_broken_archive = [''worker_functions.py'', ''select'']"
  "node_name nd1_broken_archive = ''nd1''"
  "path_exists nd1_broken_archive = (\<lambda>p. p = ''/tmp/ndpreupgradecheck/nd1/2025-05-29-nd1.tgz'')"
  "glob nd1_broken_archive = (\<lambda>p. if p = ''/techsupport/*nd1.tgz'' then [''/techsupport/2025-05-29-nd1.tgz''] else [])"
  "getmtime nd1_broken_archive = (\<lambda>p. Inr 1748500000)"
  "makedirs nd1_broken_archive = (\<lambda>p. None)"
  "getsize nd1_broken_archive = (\<lambda>p. Inr 1000)"
  "run_command nd1_broken_archive = (\<lambda>c. [])"
  "sigint_in_command nd1_broken_archive = (\<lambda>c. False)"
  "cleanup_sigint nd1_broken_archive = NoSignal"
  "run_extraction_command nd1_broken_archive = (\<lambda>c. CmdFailed)"
  "py_int nd1_broken_archive = (\<lambda>s. Inr 0)"
  "status_writable nd1_broken_archive = True"
  "results_writable nd1_broken_archive = True"
  "body nd1_broken_archive = (\<lambda>f. \<lparr>assignments = [], ending = Returned ()\<rparr>)"
  by (simp_all add: nd1_broken_archive_def nd1_env_fields)

lemma nd1_node_dir:
  "node_dir_of nd1_env = ''/tmp/ndpreupgradecheck/nd1''"
  "node_dir_of nd1_broken_archive = ''/tmp/ndpreupgradecheck/nd1''"
  "techsupport_glob nd1_env = ''/techsupport/*nd1.tgz''"
  "techsupport_glob nd1_broken_archive = ''/techsupport/*nd1.tgz''"
  by (simp_all add: node_dir_of_def BASE_DIR_def techsupport_glob_def nd1_env_fields
      nd1_broken_archive_fields)

lemma basename_archive: "basename ''/techsupport/2025-05-29-nd1.tgz'' = ''2025-05-29-nd1.tgz''"
  by (simp add: basename_def)





lemma complete_cmd_log [simp]: "cmd_log (snd (complete env w)) = cmd_log w"
  by (simp add: complete_def)

lemma main_with_archive:
  assumes "makedirs env BASE_DIR = None"
    and "acquire_archive env start_world = (Returned (Some f), w1)" and "f \<noteq> []"
    and "\<not> sigint_in_command env ''df -BM /tmp | tail -1''"
    and "cleanup_sigint env = NoSignal"
  shows "main env = process_archive env f w1"
  using assms by (simp add: main_quiet main_try_def)

lemma main_without_archive:
  assumes "makedirs env BASE_DIR = None"
    and "acquire_archive env start_world = (Returned None, w1)"
    and "\<not> sigint_in_command env ''df -BM /tmp | tail -1''"
    and "cleanup_sigint env = NoSignal"
  shows "main env = no_archive env w1"
  using assms by (simp add: main_quiet main_try_def)

lemma process_archive_completes:
  assumes "makedirs env (node_dir_of env) = None"
    and "extract_techsupport env (node_dir_of env) (basename f)
           (log_cmd (''cp '' @ f @ '' '' @ node_dir_of env @ ''/'' @ basename f) w) = (Returned u, w2)"
    and "fst (run_checks env main_checks w2) = Returned u'"
    and "\<not> sigint_in_command env (''cp '' @ f @ '' '' @ node_dir_of env @ ''/'' @ basename f)"
  shows "process_archive env f w = complete env (snd (run_checks env main_checks w2))"
proof -
  obtain r w3 where rc: "run_checks env main_checks w2 = (r, w3)"
    by (cases "run_checks env main_checks w2")
  with assms(3) have "r = Returned u'" by simp
  with assms(1,2,4) rc show ?thesis by (simp add: process_archive_def Let_def)
qed

lemma process_archive_interrupted:
  assumes "makedirs env (node_dir_of env) = None"
    and "extract_techsupport env (node_dir_of env) (basename f)
           (log_cmd (''cp '' @ f @ '' '' @ node_dir_of env @ ''/'' @ basename f) w) = (Interrupted, w2)"
    and "\<not> sigint_in_command env (''cp '' @ f @ '' '' @ node_dir_of env @ ''/'' @ basename f)"
  shows "process_archive env f w = interrupted env w2"
  using assms by (simp add: process_archive_def Let_def)



lemma extract_first_ok:
  assumes "path_exists env (d @ ''/'' @ f)" and "df_readable env"
    and "getsize env (d @ ''/'' @ f) = Inr n" and "\<not> sigint_in_command env df_tmp_cmd"
    and "run_extraction_command env (tar_xzf_cmd d (d @ ''/'' @ f)) = CmdOk"
    and "\<not> path_exists env (d @ ''/logs.tgz'')"
    and "subdirs env d \<noteq> []" and "length (argv env) > 1" and "argv env ! 1 \<noteq> ''generate''"
  shows "extract_techsupport env d f w =
     (Returned (),
      update_status env ''running'' ''Tech support extraction complete'' 90
        (write_results [SetDetails techsupport [''Tech support extracted successfully'']]
          (log_cmd (tar_xzf_cmd d (d @ ''/'' @ f))
            (log_cmd df_tmp_cmd
              (update_status env ''running'' ''Extracting tech support archive'' 50 w)))))"
  using assms
  by (auto simp: extract_techsupport_def extract_nested_logs_def verify_extraction_def Let_def
      df_readable_def split: sum.splits)

lemma nd1_env_acquire:
  "acquire_archive nd1_env w =
     (Returned (Some ''/techsupport/2025-05-29-nd1.tgz''),
      update_status nd1_env ''running''
        (''Selected tech support file: '' @ basename ''/techsupport/2025-05-29-nd1.tgz'') 20
        (update_status nd1_env ''running'' ''Selecting tech support file'' 10 w))"
  by (rule select_only_archive[where t = 1748500000])
     (simp_all add: nd1_env_fields nd1_node_dir)

lemma nd1_env_extract:
  "extract_techsupport nd1_env ''/tmp/ndpreupgradecheck/nd1'' ''2025-05-29-nd1.tgz'' w =
     (Returned (),
      update_status nd1_env ''running'' ''Tech support extraction complete'' 90
        (write_results [SetDetails techsupport [''Tech support extracted successfully'']]
          (log_cmd (tar_xzf_cmd ''/tmp/ndpreupgradecheck/nd1''
                      (''/tmp/ndpreupgradecheck/nd1'' @ ''/'' @ ''2025-05-29-nd1.tgz''))
            (log_cmd df_tmp_cmd
              (update_status nd1_env ''running'' ''Extracting tech support archive'' 50 w)))))"
  by (rule extract_first_ok)
     (simp_all add: nd1_env_fields df_readable_def df_available_def split_ws_def)

lemma nd1_env_quiet:
  "\<forall>row \<in> set main_checks. body nd1_env (fn_name row) = \<lparr>assignments = [], ending = Returned ()\<rparr>"
  by (simp add: nd1_env_fields)

lemma nd1_env_main:
  "main nd1_env =
      complete nd1_env
        (snd (run_checks nd1_env main_checks
          (update_status nd1_env ''running'' ''Tech support extraction complete'' 90
            (write_results [SetDetails techsupport [''Tech support extracted successfully'']]
              (log_cmd (tar_xzf_cmd ''/tmp/ndpreupgradecheck/nd1''
                          (''/tmp/ndpreupgradecheck/nd1'' @ ''/'' @ ''2025-05-29-nd1.tgz''))
                (log_cmd df_tmp_cmd
                  (update_status nd1_env ''running'' ''Extracting tech support archive'' 50
                    (log_cmd (''cp '' @ ''/techsupport/2025-05-29-nd1.tgz'' @ '' ''
                              @ node_dir_of nd1_env @ ''/''
                              @ basename ''/techsupport/2025-05-29-nd1.tgz'')
                      (update_status nd1_env ''running''
                         (''Selected tech support file: ''
                          @ basename ''/techsupport/2025-05-29-nd1.tgz'') 20
                        (update_status nd1_env ''running''
                           ''Selecting tech support file'' 10 start_world))))))))))"
proof -
  have 1: "main nd1_env = process_archive nd1_env ''/techsupport/2025-05-29-nd1.tgz''
      (update_status nd1_env ''running''
        (''Selected tech support file: '' @ basename ''/techsupport/2025-05-29-nd1.tgz'') 20
        (update_status nd1_env ''running'' ''Selecting tech support file'' 10 start_world))"
    by (rule main_with_archive[OF _ nd1_env_acquire]) (simp_all add: nd1_env_fields)
  show ?thesis
    unfolding 1
    apply (rule process_archive_completes[where u = "()" and u' = "()"])
      apply (simp add: nd1_env_fields)
     apply (simp only: nd1_node_dir basename_archive nd1_env_extract)
     apply (rule quiet_run_checks[OF nd1_env_quiet, THEN conjunct1])
    apply (simp add: nd1_env_fields)
    done
qed

lemma nd1_env_status_file:
  "status_file (snd (main nd1_env)) =
     [\<lparr>hb_status = ''running'', current_operation = ''Selecting tech support file'', progress = 10\<rparr>,
      \<lparr>hb_status = ''running'',
       current_operation = ''Selected tech support file: 2025-05-29-nd1.tgz'', progress = 20\<rparr>,
      \<lparr>hb_status = ''running'', current_operation = ''Extracting tech support archive'',
       progress = 50\<rparr>,
      \<lparr>hb_status = ''running'', current_operation = ''Tech support extraction complete'',
       progress = 90\<rparr>]
     @ map row_heartbeat main_checks
     @ [\<lparr>hb_status = ''complete'', current_operation = ''All operations completed'',
         progress = 100\<rparr>]"
proof -
  have nr: "\<And>w. fst (run_checks nd1_env main_checks w) \<noteq> Interrupted"
    using quiet_run_checks[OF nd1_env_quiet] by simp
  show ?thesis
    unfolding nd1_env_main
    by (simp add: run_checks_status_file nr nd1_env_fields start_world_def initial_world_def
        basename_archive)
qed

text \<open>
  C5. In the run of \<^const>\<open>nd1_env\<close> nothing fails and nothing interrupts: the archive
  is selected and extracted, every check returns, the exit code is \<open>0\<close> and every
  heartbeat but the last says \<^verbatim>\<open>running\<close>. The progress values written to the status
  file go down from 93 to 92 when the reachability check follows the subnet check,
  and from 98 to 95 when the certificate check follows the discovery service check.
\<close>

theorem heartbeat_progress_not_monotone:
  "fst (main nd1_env) = 0
   \<and> map hb_status (status_file (snd (main nd1_env))) = replicate 17 ''running'' @ [''complete'']
   \<and> map progress (status_file (snd (main nd1_env)))
       = [10, 20, 50, 90, 93, 92, 92, 94, 96, 98, 98, 95, 95, 95, 97, 97, 98, 100]
   \<and> \<not> sorted (map progress (status_file (snd (main nd1_env))))"
proof -
  have e: "fst (main nd1_env) = 0" by (simp add: nd1_env_main)
  have p: "map progress (status_file (snd (main nd1_env)))
       = [10, 20, 50, 90, 93, 92, 92, 94, 96, 98, 98, 95, 95, 95, 97, 97, 98, 100]"
    by (simp add: nd1_env_status_file main_checks_progress[simplified])
  have h: "map hb_status (status_file (snd (main nd1_env))) = replicate 17 ''running'' @ [''complete'']"
    by (simp add: nd1_env_status_file main_checks_def row_heartbeat_def numeral_eq_Suc)
  show ?thesis using e h by (simp add: p)
qed

lemma signal_handler_status_file:
  "status_file (signal_handler env w) =
     (if status_writable env
      then status_file w @ [\<lparr>hb_status = ''interrupted'',
             current_operation = ''Script interrupted by user'', progress = 0\<rparr>]
      else status_file w)"
  by (simp add: signal_handler_def)

lemma completed_run_progress:
  assumes "fst (main_try env) = 0" and "status_writable env"
  shows "\<exists>pre. map progress (status_file (snd (main_try env)))
           = pre @ [93, 92, 92, 94, 96, 98, 98, 95, 95, 95, 97, 97, 98, 100]"
proof -
  from main_try_cases[of env] assms(1)
  obtain w where m: "main_try env = complete env (snd (run_checks env main_checks w))"
    and ni: "\<not> sigint_in_checks env"
    by fastforce
  have ni': "fst (run_checks env main_checks w) \<noteq> Interrupted"
    using ni sigint_in_checks_iff[of env w] by simp
  have "map progress (status_file (snd (main_try env)))
          = map progress (status_file w) @ [93, 92, 92, 94, 96, 98, 98, 95, 95, 95, 97, 97, 98, 100]"
    unfolding m using assms(2)
    by (simp add: run_checks_status_file[OF assms(2) ni'] main_checks_progress[simplified])
  then show ?thesis by blast
qed

lemma completed_progress_decreases:
  assumes "fst (main env) = 0" and "status_writable env"
  shows "\<exists>pre post. map progress (status_file (snd (main env)))
           = pre @ [93, 92, 92, 94, 96, 98, 98, 95, 95, 95, 97, 97, 98, 100] @ post"
proof -
  have t: "fst (main_try env) = 0"
    using assms(1) by (auto simp: main_eq split: cleanup_signal.splits)
  from completed_run_progress[OF t assms(2)]
  obtain pre where p: "map progress (status_file (snd (main_try env)))
           = pre @ [93, 92, 92, 94, 96, 98, 98, 95, 95, 95, 97, 97, 98, 100]" by blast
  show ?thesis
  proof (cases "cleanup_sigint env")
    case NoSignal
    then have "map progress (status_file (snd (main env)))
           = pre @ [93, 92, 92, 94, 96, 98, 98, 95, 95, 95, 97, 97, 98, 100] @ []"
      using p by (simp add: main_eq)
    then show ?thesis by blast
  next
    case SignalSwallowed
    then have "map progress (status_file (snd (main env)))
           = pre @ [93, 92, 92, 94, 96, 98, 98, 95, 95, 95, 97, 97, 98, 100] @ [0]"
      using p assms(2) by (simp add: main_eq signal_handler_status_file)
    then show ?thesis by blast
  next
    case SignalExits
    then show ?thesis using assms(1) by (simp add: main_eq)
  qed
qed

subsection \<open>What a check leaves alone\<close>








subsection \<open>Exit codes\<close>

lemma acquired_facts:
  assumes "acquire_archive env start_world = (Returned (Some f), w1)" and "f \<noteq> []"
    and "makedirs env BASE_DIR = None" and "makedirs env (node_dir_of env) = None"
  shows "\<not> setup_failed env" and "acquired env = Some f"
  using assms by (simp_all add: setup_failed_def acquired_def)

lemma select_not_sigint:
  "length (argv env) = 2 \<Longrightarrow> argv env ! 1 \<noteq> ''generate'' \<Longrightarrow> \<not> sigint_in_acquisition env"
  by (simp add: sigint_in_acquisition_def)

lemma nd1_dest_path:
  "node_name env = ''nd1'' \<Longrightarrow>
   dest_path_of env ''/techsupport/2025-05-29-nd1.tgz''
     = ''/tmp/ndpreupgradecheck/nd1/2025-05-29-nd1.tgz''"
  "node_name env = ''nd1'' \<Longrightarrow> node_dir_of env = ''/tmp/ndpreupgradecheck/nd1''"
  by (simp_all add: dest_path_of_def node_dir_of_def BASE_DIR_def basename_def)

lemma nd1_no_archive_fields:
  "argv nd1_no_archive = [''worker_functions.py'', ''select'']"
  "node_name nd1_no_archive = ''nd1''"
  "glob nd1_no_archive = (\<lambda>p. [])"
  "makedirs nd1_no_archive = (\<lambda>p. None)"
  "sigint_in_command nd1_no_archive = (\<lambda>c. False)"
  "cleanup_sigint nd1_no_archive = NoSignal"
  "status_writable nd1_no_archive = True"
  "results_writable nd1_no_archive = True"
  by (simp_all add: nd1_no_archive_def nd1_env_fields)

lemma nd1_no_archive_acquire:
  "acquire_archive nd1_no_archive w =
     (Returned None,
      update_status nd1_no_archive ''error'' ''No tech support files found'' 10
        (write_results [SetStatus techsupport FAIL, AppendDetail techsupport ''No tech support files found'']
           (update_status nd1_no_archive ''running'' ''Selecting tech support file'' 10 w)))"
  by (simp add: acquire_archive_def select_techsupport_def explicit_usable_def
      nd1_no_archive_fields Let_def)

lemma nd1_no_archive_main:
  "main nd1_no_archive = no_archive nd1_no_archive
      (update_status nd1_no_archive ''error'' ''No tech support files found'' 10
        (write_results [SetStatus techsupport FAIL, AppendDetail techsupport ''No tech support files found'']
           (update_status nd1_no_archive ''running'' ''Selecting tech support file'' 10 start_world)))"
  by (rule main_without_archive[OF _ nd1_no_archive_acquire])
     (simp_all add: nd1_no_archive_fields)





lemma nd1_env_df: "df_readable nd1_env"
  by (simp add: df_readable_def df_available_def split_ws_def nd1_env_fields)










lemma nd1_sigint_ping_fields:
  "argv nd1_sigint_ping = [''worker_functions.py'', ''select'']"
  "node_name nd1_sigint_ping = ''nd1''"
  "path_exists nd1_sigint_ping = (\<lambda>p. p = ''/tmp/ndpreupgradecheck/nd1/2025-05-29-nd1.tgz'')"
  "glob nd1_sigint_ping = (\<lambda>p. if p = ''/techsupport/*nd1.tgz'' then [''/techsupport/2025-05-29-nd1.tgz''] else [])"
  "getmtime nd1_sigint_ping = (\<lambda>p. Inr 1748500000)"
  "makedirs nd1_sigint_ping = (\<lambda>p. None)"
  "sigint_in_command nd1_sigint_ping = (\<lambda>c. False)"
  "results_writable nd1_sigint_ping = True"
  "body nd1_sigint_ping = (\<lambda>f. if f = ''check_ping_reachability''
                           then \<lparr>assignments = [], ending = Interrupted\<rparr>
                           else \<lparr>assignments = [], ending = Returned ()\<rparr>)"
  by (simp_all add: nd1_sigint_ping_def nd1_env_fields)

lemma nd1_sigint_ping_acquire:
  "acquire_archive nd1_sigint_ping w =
     (Returned (Some ''/techsupport/2025-05-29-nd1.tgz''),
      update_status nd1_sigint_ping ''running''
        (''Selected tech support file: '' @ basename ''/techsupport/2025-05-29-nd1.tgz'') 20
        (update_status nd1_sigint_ping ''running'' ''Selecting tech support file'' 10 w))"
  by (rule select_only_archive[where t = 1748500000])
     (simp_all add: nd1_sigint_ping_fields techsupport_glob_def)

lemma nd1_sigint_ping_setup_ok: "\<not> setup_failed nd1_sigint_ping"
  by (rule acquired_facts(1)[OF nd1_sigint_ping_acquire]) (simp_all add: nd1_sigint_ping_fields)







text \<open>
  The case left out of the last part of C4: the run of \<^const>\<open>nd1_env\<close> is complete
  when SIGINT arrives while \<^verbatim>\<open>cleanup_processes\<close> runs \<^verbatim>\<open>pkill\<close>. The handler sets the
  heartbeat to \<^verbatim>\<open>interrupted\<close>, its \<^verbatim>\<open>SystemExit\<close> is caught by the bare
  \<^verbatim>\<open>except:\<close>, and the process ends with the \<open>0\<close> that \<^verbatim>\<open>main\<close> was returning.
\<close>

lemma nd1_sigint_pkill_fields:
  "argv nd1_sigint_pkill = [''worker_functions.py'', ''select'']"
  "node_name nd1_sigint_pkill = ''nd1''"
  "path_exists nd1_sigint_pkill = (\<lambda>p. p = ''/tmp/ndpreupgradecheck/nd1/2025-05-29-nd1.tgz'')"
  "glob nd1_sigint_pkill = (\<lambda>p. if p = ''/techsupport/*nd1.tgz'' then [''/techsupport/2025-05-29-nd1.tgz''] else [])"
  "getmtime nd1_sigint_pkill = (\<lambda>p. Inr 1748500000)"
  "getsize nd1_sigint_pkill = (\<lambda>p. Inr 1000)"
  "makedirs nd1_sigint_pkill = (\<lambda>p. None)"
  "run_command nd1_sigint_pkill = (\<lambda>c. [])"
  "sigint_in_command nd1_sigint_pkill = (\<lambda>c. False)"
  "run_extraction_command nd1_sigint_pkill = (\<lambda>c. CmdOk)"
  "py_int nd1_sigint_pkill = (\<lambda>s. Inr 0)"
  "cleanup_sigint nd1_sigint_pkill = SignalSwallowed"
  "body nd1_sigint_pkill = (\<lambda>f. \<lparr>assignments = [], ending = Returned ()\<rparr>)"
  by (simp_all add: nd1_sigint_pkill_def nd1_env_fields)

lemma nd1_sigint_pkill_acquire:
  "acquire_archive nd1_sigint_pkill w =
     (Returned (Some ''/techsupport/2025-05-29-nd1.tgz''),
      update_status nd1_sigint_pkill ''running''
        (''Selected tech support file: '' @ basename ''/techsupport/2025-05-29-nd1.tgz'') 20
        (update_status nd1_sigint_pkill ''running'' ''Selecting tech support file'' 10 w))"
  by (rule select_only_archive[where t = 1748500000])
     (simp_all add: nd1_sigint_pkill_fields techsupport_glob_def)

lemma cleanup_swallows_sigint:
  "fst (main nd1_sigint_pkill) = 0
   \<and> hb (snd (main nd1_sigint_pkill)) =
       \<lparr>hb_status = ''interrupted'', current_operation = ''Script interrupted by user'',
        progress = 0\<rparr>"
proof -
  have s: "\<not> setup_failed nd1_sigint_pkill"
    by (rule acquired_facts(1)[OF nd1_sigint_pkill_acquire]) (simp_all add: nd1_sigint_pkill_fields)
  have r: "\<not> sigint_in_run nd1_sigint_pkill"
    by (simp add: sigint_in_run_def acquired_facts(2)[OF nd1_sigint_pkill_acquire]
        nd1_sigint_pkill_fields select_not_sigint sigint_in_extraction_def tar_chain_def
        nested_interrupted_def sigint_in_checks_def main_checks_def nd1_dest_path)
  have "fst (main_try nd1_sigint_pkill) = 0"
    using main_try_exit(4)[of nd1_sigint_pkill] s r by simp
  then show ?thesis
    using main_swallowed[of nd1_sigint_pkill] by (simp add: nd1_sigint_pkill_fields)
qed


subsection \<open>The aggregate at the end of a run\<close>

lemma top_level_error_marks:
  "details (results (snd (top_level_error env e w)) n) \<noteq> []
   \<and> (details (results w n) = [] \<longrightarrow>
        results (snd (top_level_error env e w)) n = did_not_run e (results w n))"
  by (simp add: mark_unrun_def did_not_run_def)

lemma process_archive_checks_interrupted:
  assumes "makedirs env (node_dir_of env) = None"
    and "extract_techsupport env (node_dir_of env) (basename f)
           (log_cmd (''cp '' @ f @ '' '' @ node_dir_of env @ ''/'' @ basename f) w) = (Returned u, w2)"
    and "fst (run_checks env main_checks w2) = Interrupted"
    and "\<not> sigint_in_command env (''cp '' @ f @ '' '' @ node_dir_of env @ ''/'' @ basename f)"
  shows "process_archive env f w = interrupted env (snd (run_checks env main_checks w2))"
proof -
  obtain r w3 where rc: "run_checks env main_checks w2 = (r, w3)"
    by (cases "run_checks env main_checks w2")
  with assms(3) have "r = Interrupted" by simp
  with assms(1,2,4) rc show ?thesis by (simp add: process_archive_def Let_def)
qed

lemma nd1_sigint_status_fields:
  "argv nd1_sigint_status = [''worker_functions.py'', ''select'']"
  "node_name nd1_sigint_status = ''nd1''"
  "path_exists nd1_sigint_status = (\<lambda>p. p = ''/tmp/ndpreupgradecheck/nd1/2025-05-29-nd1.tgz'')"
  "glob nd1_sigint_status = (\<lambda>p. if p = ''/techsupport/*nd1.tgz'' then [''/techsupport/2025-05-29-nd1.tgz''] else [])"
  "getmtime nd1_sigint_status = (\<lambda>p. Inr 1748500000)"
  "getsize nd1_sigint_status = (\<lambda>p. Inr 1000)"
  "makedirs nd1_sigint_status = (\<lambda>p. None)"
  "subdirs nd1_sigint_status = (\<lambda>p. [''logs'', ''k8-diag''])"
  "run_command nd1_sigint_status = (\<lambda>c. [])"
  "sigint_in_command nd1_sigint_status = (\<lambda>c. False)"
  "run_extraction_command nd1_sigint_status = (\<lambda>c. CmdOk)"
  "py_int nd1_sigint_status = (\<lambda>s. Inr 0)"
  "cleanup_sigint nd1_sigint_status = NoSignal"
  "status_writable nd1_sigint_status = True"
  "results_writable nd1_sigint_status = True"
  "body nd1_sigint_status = (\<lambda>f. if f = ''check_ping_reachability''
                           then \<lparr>assignments = [SetStatus ping_check FAIL], ending = Interrupted\<rparr>
                           else \<lparr>assignments = [], ending = Returned ()\<rparr>)"
  by (simp_all add: nd1_sigint_status_def nd1_env_fields)

lemma nd1_sigint_status_acquire:
  "acquire_archive nd1_sigint_status w =
     (Returned (Some ''/techsupport/2025-05-29-nd1.tgz''),
      update_status nd1_sigint_status ''running''
        (''Selected tech support file: '' @ basename ''/techsupport/2025-05-29-nd1.tgz'') 20
        (update_status nd1_sigint_status ''running'' ''Selecting tech support file'' 10 w))"
  by (rule select_only_archive[where t = 1748500000])
     (simp_all add: nd1_sigint_status_fields techsupport_glob_def)

lemma nd1_sigint_status_extract:
  "extract_techsupport nd1_sigint_status ''/tmp/ndpreupgradecheck/nd1'' ''2025-05-29-nd1.tgz'' w =
     (Returned (),
      update_status nd1_sigint_status ''running'' ''Tech support extraction complete'' 90
        (write_results [SetDetails techsupport [''Tech support extracted successfully'']]
          (log_cmd (tar_xzf_cmd ''/tmp/ndpreupgradecheck/nd1''
                      (''/tmp/ndpreupgradecheck/nd1'' @ ''/'' @ ''2025-05-29-nd1.tgz''))
            (log_cmd df_tmp_cmd
              (update_status nd1_sigint_status ''running'' ''Extracting tech support archive'' 50 w)))))"
  by (rule extract_first_ok)
     (simp_all add: nd1_sigint_status_fields df_readable_def df_available_def split_ws_def)

lemma nd1_sigint_status_checks:
  "fst (run_checks nd1_sigint_status main_checks w) = Interrupted"
  "results (snd (run_checks nd1_sigint_status main_checks w))
     = (results w)(ping_check := (results w ping_check)\<lparr>status := FAIL\<rparr>)"
  by (simp_all add: main_checks_def run_check_def call_check_def check_function_def
      nd1_sigint_status_fields Let_def)

lemma nd1_sigint_status_main:
  "fst (main nd1_sigint_status) = 130"
  "results (snd (main nd1_sigint_status))
     = initial_checks
         (techsupport := \<lparr>status = PASS, details = [''Tech support extracted successfully''],
                          extras = []\<rparr>,
          ping_check := \<lparr>status = FAIL, details = [], extras = []\<rparr>)"
  "results_file (snd (main nd1_sigint_status)) = Some (results (snd (main nd1_sigint_status)))"
proof -
  have 1: "main nd1_sigint_status = process_archive nd1_sigint_status ''/techsupport/2025-05-29-nd1.tgz''
      (update_status nd1_sigint_status ''running''
        (''Selected tech support file: '' @ basename ''/techsupport/2025-05-29-nd1.tgz'') 20
        (update_status nd1_sigint_status ''running'' ''Selecting tech support file'' 10 start_world))"
    by (rule main_with_archive[OF _ nd1_sigint_status_acquire])
       (simp_all add: nd1_sigint_status_fields)
  have nd: "node_dir_of nd1_sigint_status = ''/tmp/ndpreupgradecheck/nd1''"
    by (simp add: nd1_dest_path nd1_sigint_status_fields)
  have 2: "main nd1_sigint_status = interrupted nd1_sigint_status
      (snd (run_checks nd1_sigint_status main_checks
         (update_status nd1_sigint_status ''running'' ''Tech support extraction complete'' 90
        (write_results [SetDetails techsupport [''Tech support extracted successfully'']]
          (log_cmd (tar_xzf_cmd ''/tmp/ndpreupgradecheck/nd1''
                      (''/tmp/ndpreupgradecheck/nd1'' @ ''/'' @ ''2025-05-29-nd1.tgz''))
            (log_cmd df_tmp_cmd
              (update_status nd1_sigint_status ''running'' ''Extracting tech support archive'' 50
                 (log_cmd (''cp '' @ ''/techsupport/2025-05-29-nd1.tgz'' @ '' ''
                              @ node_dir_of nd1_sigint_status @ ''/''
                              @ basename ''/techsupport/2025-05-29-nd1.tgz'')
                      (update_status nd1_sigint_status ''running''
                         (''Selected tech support file: ''
                          @ basename ''/techsupport/2025-05-29-nd1.tgz'') 20
                        (update_status nd1_sigint_status ''running''
                           ''Selecting tech support file'' 10 start_world))))))))))"
    unfolding 1
    apply (rule process_archive_checks_interrupted[where u = "()"])
       apply (simp add: nd1_sigint_status_fields)
      apply (simp only: nd basename_archive nd1_sigint_status_extract)
     apply (rule nd1_sigint_status_checks(1))
    apply (simp add: nd1_sigint_status_fields)
    done
  show "fst (main nd1_sigint_status) = 130" unfolding 2 by simp
  show r: "results (snd (main nd1_sigint_status))
     = initial_checks
         (techsupport := \<lparr>status = PASS, details = [''Tech support extracted successfully''],
                          extras = []\<rparr>,
          ping_check := \<lparr>status = FAIL, details = [], extras = []\<rparr>)"
    unfolding 2
    by (auto simp: nd1_sigint_status_checks(2) start_world_def initial_world_def
        initial_checks_def fun_eq_iff)
  show "results_file (snd (main nd1_sigint_status)) = Some (results (snd (main nd1_sigint_status)))"
    unfolding 2 by (simp add: nd1_sigint_status_fields)
qed

lemma nd1_no_archive_results:
  "results (snd (main nd1_no_archive))
     = initial_checks
         (techsupport := \<lparr>status = FAIL, details = [''Failed to obtain tech support file''],
                          extras = []\<rparr>)"
  by (auto simp: nd1_no_archive_main start_world_def initial_world_def initial_checks_def
      fun_eq_iff)

lemma nd1_readonly_fields:
  "argv nd1_readonly = [''worker_functions.py'', ''select'']"
  "node_name nd1_readonly = ''nd1''"
  "glob nd1_readonly = (\<lambda>p. if p = ''/techsupport/*nd1.tgz'' then [''/techsupport/2025-05-29-nd1.tgz''] else [])"
  "getmtime nd1_readonly = (\<lambda>p. Inr 1748500000)"
  "makedirs nd1_readonly = (\<lambda>p. if p = ''/tmp/ndpreupgradecheck/nd1''
                               then Some ''[Errno 17] File exists: /tmp/ndpreupgradecheck/nd1''
                               else None)"
  "sigint_in_command nd1_readonly = (\<lambda>c. False)"
  "cleanup_sigint nd1_readonly = NoSignal"
  "results_writable nd1_readonly = True"
  by (simp_all add: nd1_readonly_def nd1_env_fields)

lemma nd1_readonly_acquire:
  "acquire_archive nd1_readonly w =
     (Returned (Some ''/techsupport/2025-05-29-nd1.tgz''),
      update_status nd1_readonly ''running''
        (''Selected tech support file: '' @ basename ''/techsupport/2025-05-29-nd1.tgz'') 20
        (update_status nd1_readonly ''running'' ''Selecting tech support file'' 10 w))"
  by (rule select_only_archive[where t = 1748500000])
     (simp_all add: nd1_readonly_fields techsupport_glob_def)

lemma nd1_readonly_main:
  "fst (main nd1_readonly) = 1"
  "results (snd (main nd1_readonly))
     = (\<lambda>n. \<lparr>status = FAIL,
             details = [''Check did not run due to script error: [Errno 17] File exists: /tmp/ndpreupgradecheck/nd1''],
             extras = []\<rparr>)"
proof -
  have 1: "main nd1_readonly = process_archive nd1_readonly ''/techsupport/2025-05-29-nd1.tgz''
      (update_status nd1_readonly ''running''
        (''Selected tech support file: '' @ basename ''/techsupport/2025-05-29-nd1.tgz'') 20
        (update_status nd1_readonly ''running'' ''Selecting tech support file'' 10 start_world))"
    by (rule main_with_archive[OF _ nd1_readonly_acquire])
       (simp_all add: nd1_readonly_fields BASE_DIR_def)
  have nd: "node_dir_of nd1_readonly = ''/tmp/ndpreupgradecheck/nd1''"
    by (simp add: nd1_dest_path nd1_readonly_fields)
  show "fst (main nd1_readonly) = 1"
    unfolding 1 by (simp add: process_archive_def nd nd1_readonly_fields)
  show "results (snd (main nd1_readonly))
     = (\<lambda>n. \<lparr>status = FAIL,
             details = [''Check did not run due to script error: [Errno 17] File exists: /tmp/ndpreupgradecheck/nd1''],
             extras = []\<rparr>)"
    unfolding 1
    by (simp add: process_archive_def nd nd1_readonly_fields mark_unrun_def start_world_def
        initial_world_def initial_checks_def)
qed

text \<open>
  C1. The claim is what the two \<^verbatim>\<open>except\<close> clauses of \<^verbatim>\<open>main\<close> implement: on
  \<^const>\<open>nd1_readonly\<close>, where the node directory cannot be created, every check that has
  no detail is set to \<^verbatim>\<open>FAIL\<close> with a "did not run" detail. The other exits do not do
  it. On \<^const>\<open>nd1_no_archive\<close> no archive is found, \<^verbatim>\<open>main\<close> returns \<open>1\<close> from inside
  its \<^verbatim>\<open>try\<close>, and the results file holds the fourteen checks that never ran as
  \<^verbatim>\<open>PASS\<close> without a detail. On \<^const>\<open>nd1_sigint_status\<close> SIGINT arrives in the
  reachability check after it has set its status to \<^verbatim>\<open>FAIL\<close> and before it sets the
  details: the handler saves the aggregate as it is, with a \<^verbatim>\<open>FAIL\<close> entry that has no
  detail and with the eleven checks that had not started as \<^verbatim>\<open>PASS\<close> without a
  detail.
\<close>

theorem aggregate_unrun_checks_not_marked:
  "fst (main nd1_readonly) = 1
   \<and> map (\<lambda>n. (status (results (snd (main nd1_readonly)) n),
                details (results (snd (main nd1_readonly)) n))) registered_checks
       = replicate 15 (FAIL,
           [''Check did not run due to script error: [Errno 17] File exists: /tmp/ndpreupgradecheck/nd1''])
   \<and> fst (main nd1_no_archive) = 1
   \<and> map (\<lambda>n. (n, status (results (snd (main nd1_no_archive)) n),
                details (results (snd (main nd1_no_archive)) n))) registered_checks
       = [(version_check, PASS, []), (subnet_check, PASS, []), (node_status, PASS, []),
          (ping_check, PASS, []), (disk_space, PASS, []), (pod_status, PASS, []),
          (system_health, PASS, []),
          (techsupport, FAIL, [''Failed to obtain tech support file'']),
          (certificate_check, PASS, []), (iso_check, PASS, []), (lvm_pvs_check, PASS, []),
          (persistent_ip_check, PASS, []), (atom0_nvme_check, PASS, []),
          (atom0_vg_check, PASS, []), (nxos_discovery_service, PASS, [])]
   \<and> results_file (snd (main nd1_no_archive)) = Some (results (snd (main nd1_no_archive)))
   \<and> fst (main nd1_sigint_status) = 130
   \<and> map (\<lambda>n. (n, status (results (snd (main nd1_sigint_status)) n),
                details (results (snd (main nd1_sigint_status)) n))) registered_checks
       = [(version_check, PASS, []), (subnet_check, PASS, []), (node_status, PASS, []),
          (ping_check, FAIL, []), (disk_space, PASS, []), (pod_status, PASS, []),
          (system_health, PASS, []),
          (techsupport, PASS, [''Tech support extracted successfully'']),
          (certificate_check, PASS, []), (iso_check, PASS, []), (lvm_pvs_check, PASS, []),
          (persistent_ip_check, PASS, []), (atom0_nvme_check, PASS, []),
          (atom0_vg_check, PASS, []), (nxos_discovery_service, PASS, [])]
   \<and> results_file (snd (main nd1_sigint_status)) = Some (results (snd (main nd1_sigint_status)))"
  by (simp add: nd1_readonly_main nd1_no_archive_results nd1_no_archive_main
      nd1_no_archive_fields nd1_sigint_status_main registered_checks_def initial_checks_def
      start_world_def initial_world_def numeral_eq_Suc)

end
